theory Spec2Isabelle
  imports Complex_Main
begin

section \<open>The POI map client\<close>

text \<open>
  The repository holds two browser scripts over Leaflet: an edit-capable page (points, lines
  and polygons, a draw tool, a creation form, deletion) and a simplified read-only viewer
  (\<^verbatim>\<open>static/js/map.js\<close>: points and polygons only). Both share \<^verbatim>\<open>createPopupContent\<close>,
  \<^verbatim>\<open>getPolygonColor\<close> and \<^verbatim>\<open>getPolygonStyle\<close> word for word.

  The scripts are modelled by explicit state passing over a record of the page. Everything
  the scripts do to the outside world (requests, dialogs, console output) is appended to a
  log kept in the page, in the order in which it happens. What the outside world answers
  (the outcome of a request, the user's answer to a dialog) is an argument of the handler
  that asks for it. An asynchronous function is run from an \<^verbatim>\<open>await\<close> to its end in one
  step, with the outcomes it is given; runs of other handlers in between are not modelled.
\<close>

subsection \<open>Values exchanged with the backend\<close>

text \<open>
  JavaScript strings are modelled as \<^typ>\<open>string\<close>. Numbers are kept abstract (type
  variable \<open>'n\<close>): the scripts never compute with them, they only test them for truthiness
  and print them. \<^verbatim>\<open>undefined\<close> stands for a missing property.
\<close>

datatype 'n prim = Undefined | Null | Bool bool | Num 'n | Str string

text \<open>
  An object lists its own properties in enumeration order, with distinct names.
\<close>

datatype 'n json = Prim "'n prim" | Arr "'n json list" | Obj "(string \<times> 'n json) list"

text \<open>
  The text that the user types into the properties field is kept as the list of its UTF-16
  code units, since trimming depends on the characters themselves. \<open>units\<close> gives the code
  units of a text in the ASCII range.
\<close>

type_synonym code_units = "nat list"

definition units :: "string \<Rightarrow> code_units" where
  "units text = map of_char text"

text \<open>
  The language built-ins that are not written out here are parameters of the model:
  the truthiness and the printing of a number, \<^verbatim>\<open>JSON.parse\<close> (\<open>None\<close> when it throws
  a SyntaxError) and \<^verbatim>\<open>JSON.stringify(value, null, indent)\<close> (indent \<open>0\<close> for the
  one-argument call). A number parsed from JSON is never \<^verbatim>\<open>NaN\<close>, so it is falsy exactly
  when it is zero.
\<close>

record 'n host =
  Number_toBoolean :: "'n \<Rightarrow> bool"
  Number_toString :: "'n \<Rightarrow> string"
  JSON_parse :: "code_units \<Rightarrow> 'n json option"
  JSON_stringify :: "'n json \<Rightarrow> nat \<Rightarrow> string"

datatype error = Error string | TypeError string | SyntaxError string

fun message :: "error \<Rightarrow> string" where
  "message (Error m) = m"
| "message (TypeError m) = m"
| "message (SyntaxError m) = m"

text \<open>
  Reading a property of \<^verbatim>\<open>undefined\<close> or \<^verbatim>\<open>null\<close> throws a TypeError; the wording of
  its message belongs to the engine and is left empty.
\<close>

definition cannot_read :: error where
  "cannot_read = TypeError []"

text \<open>
  Likewise for calling a value that is not a function, and for converting to a string an
  object that has no usable \<^verbatim>\<open>toString\<close>.
\<close>

definition not_a_function :: error where
  "not_a_function = TypeError []"

definition cannot_convert :: error where
  "cannot_convert = TypeError []"

fun ToBoolean :: "'n host \<Rightarrow> 'n prim \<Rightarrow> bool" where
  "ToBoolean H Undefined = False"
| "ToBoolean H Null = False"
| "ToBoolean H (Bool b) = b"
| "ToBoolean H (Num n) = Number_toBoolean H n"
| "ToBoolean H (Str s) = (s \<noteq> [])"

fun ToString :: "'n host \<Rightarrow> 'n prim \<Rightarrow> string" where
  "ToString H Undefined = ''undefined''"
| "ToString H Null = ''null''"
| "ToString H (Bool b) = (if b then ''true'' else ''false'')"
| "ToString H (Num n) = Number_toString H n"
| "ToString H (Str s) = s"

fun truthy :: "'n host \<Rightarrow> 'n json \<Rightarrow> bool" where
  "truthy H (Prim p) = ToBoolean H p"
| "truthy H (Arr xs) = True"
| "truthy H (Obj kvs) = True"

text \<open>
  \<^verbatim>\<open>Object.keys(v).length\<close>: the number of own enumerable properties; the call throws on
  \<^verbatim>\<open>undefined\<close> and \<^verbatim>\<open>null\<close>, a string has its indices, an array its indices.
\<close>

fun Object_keys_length :: "'n json \<Rightarrow> error + nat" where
  "Object_keys_length (Prim Undefined) = Inl cannot_read"
| "Object_keys_length (Prim Null) = Inl cannot_read"
| "Object_keys_length (Prim (Str s)) = Inr (length s)"
| "Object_keys_length (Prim (Bool b)) = Inr 0"
| "Object_keys_length (Prim (Num n)) = Inr 0"
| "Object_keys_length (Arr xs) = Inr (length xs)"
| "Object_keys_length (Obj kvs) = Inr (length kvs)"

text \<open>Printing of an array length or a status code, which are natural numbers.\<close>

function show_nat :: "nat \<Rightarrow> string" where
  "show_nat n =
     (if n < 10 then [''0123456789'' ! n]
      else show_nat (n div 10) @ [''0123456789'' ! (n mod 10)])"
  by pat_completeness auto
termination
  by (relation "measure (\<lambda>n. n)") auto

declare show_nat.simps [simp del]

text \<open>
  The \<^verbatim>\<open>properties\<close> member of a GeoJSON Feature as the backend sends it. The five scalar
  members hold primitives; \<open>extra\<close> is the nested member that is itself called
  \<^verbatim>\<open>properties\<close> (arbitrary JSON, \<open>Prim Undefined\<close> when missing) and \<open>poi_id\<close> is the
  member \<^verbatim>\<open>id\<close>.
\<close>

record 'n props =
  name :: "'n prim"
  poi_type :: "'n prim"
  address :: "'n prim"
  poi_id :: "'n prim"
  geom_type :: "'n prim"
  extra :: "'n json"

text \<open>A Feature; \<open>properties = None\<close> when the member is missing or \<^verbatim>\<open>null\<close>.\<close>

record 'n feature =
  properties :: "'n props option"
  geometry :: "'n json"

text \<open>
  The member \<^verbatim>\<open>features\<close> of the parsed body of \<^verbatim>\<open>GET /api/pois\<close>: an array of features,
  or a primitive (\<open>Primitive Undefined\<close> when the member is missing), or an object, given
  by its own properties.
\<close>

datatype 'n member =
    Features "'n feature list"
  | Primitive "'n prim"
  | Object "(string \<times> 'n json) list"

text \<open>The parsed body of \<^verbatim>\<open>GET /api/pois\<close>, an object.\<close>

record 'n collection =
  features :: "'n member"

text \<open>
  Conversion of a parsed JSON value to a string, as a template literal does it. An array
  joins its elements with commas, \<^verbatim>\<open>undefined\<close> and \<^verbatim>\<open>null\<close> giving the empty string.
  An object prints as \<^verbatim>\<open>[object Object]\<close>, unless it has a property \<^verbatim>\<open>toString\<close> of its
  own: that one is not a function, \<^verbatim>\<open>valueOf\<close> yields no primitive either, and the
  conversion throws.
\<close>

fun json_toString :: "'n host \<Rightarrow> 'n json \<Rightarrow> error + string"
  and join_toString :: "'n host \<Rightarrow> 'n json list \<Rightarrow> error + string" where
  "json_toString H (Prim p) = Inr (ToString H p)"
| "json_toString H (Arr xs) = join_toString H xs"
| "json_toString H (Obj kvs) =
     (if ''toString'' \<in> set (map fst kvs) then Inl cannot_convert else Inr ''[object Object]'')"
| "join_toString H [] = Inr []"
| "join_toString H (x # xs) =
     (case (if x = Prim Undefined \<or> x = Prim Null then Inr [] else json_toString H x) of
        Inl e \<Rightarrow> Inl e
      | Inr first \<Rightarrow>
          if xs = [] then Inr first
          else (case join_toString H xs of
                  Inl e \<Rightarrow> Inl e
                | Inr others \<Rightarrow> Inr (first @ '','' @ others)))"

text \<open>
  What the loaders read of the member: its truthiness; its \<^verbatim>\<open>length\<close>, which is a count
  for an array and for a string, the own property of that name for an object, and
  \<^verbatim>\<open>undefined\<close> for a boolean or a number; whether that is strictly equal to \<^verbatim>\<open>0\<close>; and
  how it prints.
\<close>

fun member_truthy :: "'n host \<Rightarrow> 'n member \<Rightarrow> bool" where
  "member_truthy H (Features fs) = True"
| "member_truthy H (Primitive p) = ToBoolean H p"
| "member_truthy H (Object kvs) = True"

fun member_length :: "'n member \<Rightarrow> error + nat + 'n json" where
  "member_length (Features fs) = Inr (Inl (length fs))"
| "member_length (Primitive Undefined) = Inl cannot_read"
| "member_length (Primitive Null) = Inl cannot_read"
| "member_length (Primitive (Str text)) = Inr (Inl (length text))"
| "member_length (Primitive (Bool b)) = Inr (Inr (Prim Undefined))"
| "member_length (Primitive (Num n)) = Inr (Inr (Prim Undefined))"
| "member_length (Object kvs) =
     (case map_of kvs ''length'' of
        None \<Rightarrow> Inr (Inr (Prim Undefined))
      | Some v \<Rightarrow> Inr (Inr v))"

fun strictly_zero :: "'n host \<Rightarrow> nat + 'n json \<Rightarrow> bool" where
  "strictly_zero H (Inl k) = (k = 0)"
| "strictly_zero H (Inr (Prim (Num n))) = (\<not> Number_toBoolean H n)"
| "strictly_zero H (Inr v) = False"

fun length_text :: "'n host \<Rightarrow> nat + 'n json \<Rightarrow> error + string" where
  "length_text H (Inl k) = Inr (show_nat k)"
| "length_text H (Inr v) = json_toString H v"

text \<open>
  The outcome of a \<^verbatim>\<open>fetch\<close>: the promise rejects, or a response arrives with a status
  code and a body on which \<^verbatim>\<open>response.json()\<close> either rejects (\<open>Inl\<close>) or yields a value.
\<close>

datatype 'b fetched = Rejected error | Responded nat "error + 'b"

definition ok :: "nat \<Rightarrow> bool" where
  "ok status = (200 \<le> status \<and> status \<le> 299)"

subsection \<open>Popup renderer\<close>

definition createPopupContent :: "'n host \<Rightarrow> 'n feature \<Rightarrow> error + string" where
  \<open>createPopupContent H feat =
     (case properties feat of
        None \<Rightarrow> Inl cannot_read
      | Some props \<Rightarrow>
          let html = ''<div class="popup-content">'';
              html = html @ ''<h3>''
                @ (if ToBoolean H (name props) then ToString H (name props) else ''Unnamed POI'')
                @ ''</h3>'';
              html = (if ToBoolean H (poi_type props)
                      then html @ ''<p><strong>Type:</strong> '' @ ToString H (poi_type props) @ ''</p>''
                      else html);
              html = (if ToBoolean H (address props)
                      then html @ ''<p><strong>Address:</strong> '' @ ToString H (address props) @ ''</p>''
                      else html);
              html = html @ ''<p><strong>ID:</strong> '' @ ToString H (poi_id props) @ ''</p>'';
              html = html @ ''<p><strong>Geometry:</strong> '' @ ToString H (geom_type props) @ ''</p>''
          in if truthy H (extra props)
             then (case Object_keys_length (extra props) of
                     Inl e \<Rightarrow> Inl e
                   | Inr n \<Rightarrow>
                       if n > 0
                       then Inr (html @ ''<div class="properties">''
                                 @ ''<strong>Additional Properties:</strong><br>''
                                 @ ''<pre>'' @ JSON_stringify H (extra props) 2 @ ''</pre>''
                                 @ ''</div>'' @ ''</div>'')
                       else Inr (html @ ''</div>''))
             else Inr (html @ ''</div>''))\<close>

subsection \<open>The page\<close>

text \<open>
  Path options as Leaflet takes them; an option that a call does not give is \<open>None\<close>.
\<close>

record path_options =
  radius :: "nat option"
  fillColor :: "string option"
  color :: string
  weight :: nat
  opacity :: real
  fillOpacity :: "real option"

text \<open>
  What \<^verbatim>\<open>L.geoJSON(feature, options)\<close> followed by \<^verbatim>\<open>bindPopup\<close> puts into a layer group:
  the feature it was built from, the options of its path and the popup markup.
  \<^verbatim>\<open>L.geoJSON\<close> is taken to build exactly one sublayer for a Feature, to evaluate a
  \<^verbatim>\<open>style\<close> function once for it, and not to throw: its behaviour on the geometry kinds
  of the data model. Coordinates are not modelled.
\<close>

record 'n rendered =
  source :: "'n feature"
  options :: path_options
  popup :: string

text \<open>
  A shape of the editable overlay: \<open>feature\<close> is the member \<^verbatim>\<open>layer.feature\<close> (missing
  on a freshly drawn shape) and \<open>shape\<close> the geometry that \<^verbatim>\<open>layer.toGeoJSON()\<close> yields.
  Shapes are values: two shapes of the same content are not told apart.
\<close>

record 'n layer =
  feature :: "'n feature option"
  shape :: "'n json"

datatype effect =
    Fetch string string "string option"
  | Alert string
  | Confirm string
  | ConsoleLog string
  | ConsoleError string error
  | FitBounds
  | PreventDefault
  | Focus string

text \<open>
  \<open>Fetch method url body\<close> is a request handed to the network; console output is kept by
  its first argument. The page holds the module
  variables of the script, the parts of the document that it reads or writes (the text of
  \<^verbatim>\<open>#poi-count\<close>, the \<^verbatim>\<open>display\<close> style of \<^verbatim>\<open>#poi-modal\<close>, the values of the four form
  fields) and the log of effects. The simplified viewer uses \<open>pointLayer\<close>,
  \<open>polygonLayer\<close>, \<open>colorIndex\<close>, \<open>poi_count\<close> and \<open>effects\<close> only.
\<close>

record 'n page =
  pointLayer :: "'n rendered list"
  lineLayer :: "'n rendered list"
  polygonLayer :: "'n rendered list"
  drawnItems :: "'n layer list"
  currentDrawing :: "'n layer option"
  colorIndex :: nat
  poi_count :: string
  poi_modal_display :: string
  poi_name_value :: string
  poi_type_value :: string
  poi_address_value :: string
  poi_properties_value :: code_units
  effects :: "effect list"

definition emit :: "effect \<Rightarrow> 'n page \<Rightarrow> 'n page" where
  "emit e s = s\<lparr>effects := effects s @ [e]\<rparr>"

text \<open>The page as the script leaves it before the first load (the modal is not shown).\<close>

definition initial_page :: "'n page" where
  "initial_page =
     \<lparr>pointLayer = [], lineLayer = [], polygonLayer = [], drawnItems = [],
      currentDrawing = None, colorIndex = 0, poi_count = [], poi_modal_display = ''none'',
      poi_name_value = [], poi_type_value = [], poi_address_value = [],
      poi_properties_value = [], effects = []\<rparr>"

subsection \<open>Style selector\<close>

definition polygonColors :: "string list" where
  "polygonColors =
     [''#FF6B6B'', ''#4ECDC4'', ''#45B7D1'', ''#FFA07A'', ''#98D8C8'',
      ''#F7DC6F'', ''#BB8FCE'', ''#85C1E2'', ''#F8B739'', ''#52B788'']"

definition getPolygonColor :: "'n page \<Rightarrow> string \<times> 'n page" where
  "getPolygonColor s =
     (let c = polygonColors ! (colorIndex s mod length polygonColors)
      in (c, s\<lparr>colorIndex := colorIndex s + 1\<rparr>))"

definition getPolygonStyle :: "'n page \<Rightarrow> path_options \<times> 'n page" where
  "getPolygonStyle s =
     (case getPolygonColor s of
        (c, s') \<Rightarrow>
          (\<lparr>radius = None, fillColor = Some c, color = c, weight = 2, opacity = 0.8,
            fillOpacity = Some 0.5\<rparr>, s'))"

definition line_style :: path_options where
  "line_style =
     \<lparr>radius = None, fillColor = None, color = ''#00ff00'', weight = 4, opacity = 0.8,
      fillOpacity = None\<rparr>"

definition circle_marker_style :: path_options where
  "circle_marker_style =
     \<lparr>radius = Some 8, fillColor = Some ''#3388ff'', color = ''#fff'', weight = 2, opacity = 1,
      fillOpacity = Some 0.8\<rparr>"

definition clearLayers :: "'n page \<Rightarrow> 'n page" where
  "clearLayers s =
     s\<lparr>pointLayer := [], lineLayer := [], polygonLayer := [], drawnItems := [],
       colorIndex := 0\<rparr>"

subsection \<open>POI loader of the edit-capable page\<close>

text \<open>
  A statement that throws leaves the page as it was at that moment: each part of a
  \<^verbatim>\<open>try\<close> block returns the error, if any, together with the page reached.

  The first \<^verbatim>\<open>forEach\<close> collects points and polygons and renders a line at once.
\<close>

fun classify_each ::
  "'n host \<Rightarrow> 'n feature list \<Rightarrow> 'n feature list \<Rightarrow> 'n feature list \<Rightarrow> 'n page
     \<Rightarrow> error option \<times> 'n feature list \<times> 'n feature list \<times> 'n page" where
  "classify_each H [] points polygons s = (None, points, polygons, s)"
| "classify_each H (feat # rest) points polygons s =
     (case properties feat of
        None \<Rightarrow> (Some cannot_read, points, polygons, s)
      | Some props \<Rightarrow>
          if geom_type props = Str ''ST_Point''
          then classify_each H rest (points @ [feat]) polygons s
          else if geom_type props = Str ''ST_LineString''
                  \<or> geom_type props = Str ''ST_MultiLineString''
          then (case createPopupContent H feat of
                  Inl e \<Rightarrow> (Some e, points, polygons, s)
                | Inr html \<Rightarrow>
                    classify_each H rest points polygons
                      (s\<lparr>lineLayer := lineLayer s
                            @ [\<lparr>source = feat, options = line_style, popup = html\<rparr>],
                         drawnItems := drawnItems s
                            @ [\<lparr>feature = Some feat, shape = geometry feat\<rparr>]\<rparr>))
          else classify_each H rest points (polygons @ [feat]) s)"

fun add_points :: "'n host \<Rightarrow> 'n feature list \<Rightarrow> 'n page \<Rightarrow> error option \<times> 'n page" where
  "add_points H [] s = (None, s)"
| "add_points H (feat # rest) s =
     (case createPopupContent H feat of
        Inl e \<Rightarrow> (Some e, s)
      | Inr html \<Rightarrow>
          add_points H rest
            (s\<lparr>pointLayer := pointLayer s
                  @ [\<lparr>source = feat, options = circle_marker_style, popup = html\<rparr>],
               drawnItems := drawnItems s
                  @ [\<lparr>feature = Some feat, shape = geometry feat\<rparr>]\<rparr>))"

text \<open>
  \<^verbatim>\<open>L.geoJSON(feature, {style: getPolygonStyle})\<close> takes the next colour before the popup
  is built.
\<close>

fun add_polygons :: "'n host \<Rightarrow> 'n feature list \<Rightarrow> 'n page \<Rightarrow> error option \<times> 'n page" where
  "add_polygons H [] s = (None, s)"
| "add_polygons H (feat # rest) s =
     (case getPolygonStyle s of
        (style, s1) \<Rightarrow>
          (case createPopupContent H feat of
             Inl e \<Rightarrow> (Some e, s1)
           | Inr html \<Rightarrow>
               add_polygons H rest
                 (s1\<lparr>polygonLayer := polygonLayer s1
                        @ [\<lparr>source = feat, options = style, popup = html\<rparr>],
                     drawnItems := drawnItems s1
                        @ [\<lparr>feature = Some feat, shape = geometry feat\<rparr>]\<rparr>)))"

text \<open>
  The filter that counts the lines for the console; it runs after the first loop has read
  \<^verbatim>\<open>feature.properties.geom_type\<close> of every feature, so it cannot throw there.
\<close>

definition is_line :: "'n feature \<Rightarrow> bool" where
  "is_line feat =
     (case properties feat of
        None \<Rightarrow> False
      | Some props \<Rightarrow>
          geom_type props = Str ''ST_LineString'' \<or> geom_type props = Str ''ST_MultiLineString'')"

definition no_pois :: string where
  "no_pois = ''No POIs found in database''"

text \<open>
  The start of the \<^verbatim>\<open>try\<close> block once the body is parsed, word for word the same in both
  scripts: the test for an empty result, the count text, and the call of \<^verbatim>\<open>forEach\<close>,
  which only an array has. The result is either the end of the block (a return or a throw,
  with the page reached) or the array over which the loops run.
\<close>

definition read_features ::
  "'n host \<Rightarrow> 'n member \<Rightarrow> 'n page \<Rightarrow> (error option \<times> 'n page) + ('n feature list \<times> 'n page)" where
  "read_features H m s =
     (if \<not> member_truthy H m then Inl (None, s\<lparr>poi_count := no_pois\<rparr>)
      else (case member_length m of
              Inl e \<Rightarrow> Inl (Some e, s)
            | Inr len \<Rightarrow>
                if strictly_zero H len then Inl (None, s\<lparr>poi_count := no_pois\<rparr>)
                else (case length_text H len of
                        Inl e \<Rightarrow> Inl (Some e, s)
                      | Inr printed \<Rightarrow>
                          (let s1 = s\<lparr>poi_count := ''Total POIs: '' @ printed\<rparr> in
                           case m of
                             Features fs \<Rightarrow> Inr (fs, s1)
                           | Primitive p \<Rightarrow> Inl (Some not_a_function, s1)
                           | Object kvs \<Rightarrow> Inl (Some not_a_function, s1)))))"

text \<open>
  \<^verbatim>\<open>L.featureGroup(groups).getBounds().isValid()\<close>. Leaflet's \<^verbatim>\<open>getBounds\<close> asks every
  child for \<^verbatim>\<open>getBounds\<close> or else \<^verbatim>\<open>getLatLng\<close>. The children here are plain layer
  groups, made by \<^verbatim>\<open>L.layerGroup()\<close>, which have neither: with a child the call throws,
  whatever the groups hold.
\<close>

fun featureGroup_bounds_valid :: "'n rendered list list \<Rightarrow> error + bool" where
  "featureGroup_bounds_valid [] = Inr False"
| "featureGroup_bounds_valid (child # children) = Inl not_a_function"

text \<open>The loops of the \<^verbatim>\<open>try\<close> block and what follows them.\<close>

definition render_features ::
  "'n host \<Rightarrow> 'n feature list \<Rightarrow> 'n page \<Rightarrow> error option \<times> 'n page" where
  "render_features H fs s =
     (case classify_each H fs [] [] s of
        (Some e, points, polygons, s1) \<Rightarrow> (Some e, s1)
      | (None, points, polygons, s1) \<Rightarrow>
          (case add_points H points s1 of
             (Some e, s2) \<Rightarrow> (Some e, s2)
           | (None, s2) \<Rightarrow>
               (case add_polygons H polygons s2 of
                  (Some e, s3) \<Rightarrow> (Some e, s3)
                | (None, s3) \<Rightarrow>
                    (case featureGroup_bounds_valid
                            [pointLayer s3, lineLayer s3, polygonLayer s3] of
                       Inl e \<Rightarrow> (Some e, s3)
                     | Inr valid \<Rightarrow>
                         (let s4 = (if valid then emit FitBounds s3 else s3);
                              lineCount = length (filter is_line fs)
                          in (None,
                              emit (ConsoleLog
                                     (''Loaded '' @ show_nat (length points)
                                      @ '' points, '' @ show_nat lineCount
                                      @ '' lines, and '' @ show_nat (length polygons)
                                      @ '' polygons'')) s4))))))"

text \<open>The body of the \<^verbatim>\<open>try\<close> block.\<close>

definition loadPOIs_try ::
  "'n host \<Rightarrow> 'n collection fetched \<Rightarrow> 'n page \<Rightarrow> error option \<times> 'n page" where
  "loadPOIs_try H response s0 =
     (let s = emit (Fetch ''GET'' ''/api/pois'' None) s0 in
      case response of
        Rejected e \<Rightarrow> (Some e, s)
      | Responded status body \<Rightarrow>
          (case body of
             Inl e \<Rightarrow> (Some e, s)
           | Inr geojson \<Rightarrow>
               (case read_features H (features geojson) s of
                  Inl ended \<Rightarrow> ended
                | Inr (fs, s1) \<Rightarrow> render_features H fs s1)))"

text \<open>
  \<^verbatim>\<open>loadPOIs\<close>: the \<^verbatim>\<open>try\<close> block and its \<^verbatim>\<open>catch\<close>. The first component of the result
  is the error with which the call itself ends, if any.
\<close>

definition loadPOIs ::
  "'n host \<Rightarrow> 'n collection fetched \<Rightarrow> 'n page \<Rightarrow> error option \<times> 'n page" where
  "loadPOIs H response s =
     (case loadPOIs_try H response s of
        (None, s') \<Rightarrow> (None, s')
      | (Some error, s') \<Rightarrow>
          (None, (emit (ConsoleError ''Error loading POIs:'' error) s')
                   \<lparr>poi_count := ''Error loading POIs''\<rparr>))"

subsection \<open>POI loader of the simplified viewer\<close>

fun classify_each_viewer ::
  "'n feature list \<Rightarrow> 'n feature list \<Rightarrow> 'n feature list
     \<Rightarrow> error option \<times> 'n feature list \<times> 'n feature list" where
  "classify_each_viewer [] points polygons = (None, points, polygons)"
| "classify_each_viewer (feat # rest) points polygons =
     (case properties feat of
        None \<Rightarrow> (Some cannot_read, points, polygons)
      | Some props \<Rightarrow>
          if geom_type props = Str ''ST_Point''
          then classify_each_viewer rest (points @ [feat]) polygons
          else classify_each_viewer rest points (polygons @ [feat]))"

fun add_points_viewer ::
  "'n host \<Rightarrow> 'n feature list \<Rightarrow> 'n page \<Rightarrow> error option \<times> 'n page" where
  "add_points_viewer H [] s = (None, s)"
| "add_points_viewer H (feat # rest) s =
     (case createPopupContent H feat of
        Inl e \<Rightarrow> (Some e, s)
      | Inr html \<Rightarrow>
          add_points_viewer H rest
            (s\<lparr>pointLayer := pointLayer s
                  @ [\<lparr>source = feat, options = circle_marker_style, popup = html\<rparr>]\<rparr>))"

fun add_polygons_viewer ::
  "'n host \<Rightarrow> 'n feature list \<Rightarrow> 'n page \<Rightarrow> error option \<times> 'n page" where
  "add_polygons_viewer H [] s = (None, s)"
| "add_polygons_viewer H (feat # rest) s =
     (case getPolygonStyle s of
        (style, s1) \<Rightarrow>
          (case createPopupContent H feat of
             Inl e \<Rightarrow> (Some e, s1)
           | Inr html \<Rightarrow>
               add_polygons_viewer H rest
                 (s1\<lparr>polygonLayer := polygonLayer s1
                        @ [\<lparr>source = feat, options = style, popup = html\<rparr>]\<rparr>)))"

definition render_features_viewer ::
  "'n host \<Rightarrow> 'n feature list \<Rightarrow> 'n page \<Rightarrow> error option \<times> 'n page" where
  "render_features_viewer H fs s =
     (case classify_each_viewer fs [] [] of
        (Some e, points, polygons) \<Rightarrow> (Some e, s)
      | (None, points, polygons) \<Rightarrow>
          (case add_points_viewer H points s of
             (Some e, s2) \<Rightarrow> (Some e, s2)
           | (None, s2) \<Rightarrow>
               (case add_polygons_viewer H polygons s2 of
                  (Some e, s3) \<Rightarrow> (Some e, s3)
                | (None, s3) \<Rightarrow>
                    (case featureGroup_bounds_valid [pointLayer s3, polygonLayer s3] of
                       Inl e \<Rightarrow> (Some e, s3)
                     | Inr valid \<Rightarrow>
                         (let s4 = (if valid then emit FitBounds s3 else s3)
                          in (None,
                              emit (ConsoleLog
                                     (''Loaded '' @ show_nat (length points)
                                      @ '' points and '' @ show_nat (length polygons)
                                      @ '' polygons'')) s4))))))"

definition loadPOIs_try_viewer ::
  "'n host \<Rightarrow> 'n collection fetched \<Rightarrow> 'n page \<Rightarrow> error option \<times> 'n page" where
  "loadPOIs_try_viewer H response s0 =
     (let s = emit (Fetch ''GET'' ''/api/pois'' None) s0 in
      case response of
        Rejected e \<Rightarrow> (Some e, s)
      | Responded status body \<Rightarrow>
          (case body of
             Inl e \<Rightarrow> (Some e, s)
           | Inr geojson \<Rightarrow>
               (case read_features H (features geojson) s of
                  Inl ended \<Rightarrow> ended
                | Inr (fs, s1) \<Rightarrow> render_features_viewer H fs s1)))"

definition loadPOIs_viewer ::
  "'n host \<Rightarrow> 'n collection fetched \<Rightarrow> 'n page \<Rightarrow> error option \<times> 'n page" where
  "loadPOIs_viewer H response s =
     (case loadPOIs_try_viewer H response s of
        (None, s') \<Rightarrow> (None, s')
      | (Some error, s') \<Rightarrow>
          (None, (emit (ConsoleError ''Error loading POIs:'' error) s')
                   \<lparr>poi_count := ''Error loading POIs''\<rparr>))"

subsection \<open>Draw/edit controller\<close>

definition openModal :: "'n page \<Rightarrow> 'n page" where
  "openModal s = emit (Focus ''poi-name'') (s\<lparr>poi_modal_display := ''block''\<rparr>)"

text \<open>
  \<^verbatim>\<open>form.reset()\<close> puts the fields back to their defaults, which the document (not part of
  the scripts) gives; they are taken to be empty.
\<close>

text \<open>
  \<^verbatim>\<open>drawnItems.removeLayer(currentDrawing)\<close> takes one shape out of the overlay. Shapes
  are values here; the pending shape is the one drawn last, so among shapes of the same
  content it is the last one.
\<close>

definition removeLayer :: "'a \<Rightarrow> 'a list \<Rightarrow> 'a list" where
  "removeLayer x xs = rev (remove1 x (rev xs))"

definition closeModal :: "'n page \<Rightarrow> 'n page" where
  "closeModal s =
     (let s1 = s\<lparr>poi_modal_display := ''none'', poi_name_value := [], poi_type_value := [],
                 poi_address_value := [], poi_properties_value := []\<rparr>
      in case currentDrawing s1 of
           None \<Rightarrow> s1
         | Some drawing \<Rightarrow>
             s1\<lparr>drawnItems := removeLayer drawing (drawnItems s1), currentDrawing := None\<rparr>)"

text \<open>The handler of \<^verbatim>\<open>L.Draw.Event.CREATED\<close>; its argument is \<^verbatim>\<open>event.layer\<close>.\<close>

definition on_draw_created :: "'n layer \<Rightarrow> 'n page \<Rightarrow> 'n page" where
  "on_draw_created drawn s =
     openModal (s\<lparr>currentDrawing := Some drawn, drawnItems := drawnItems s @ [drawn]\<rparr>)"

text \<open>The click handler of the window; its argument tells whether the target is the modal.\<close>

definition window_onclick :: "bool \<Rightarrow> 'n page \<Rightarrow> 'n page" where
  "window_onclick target_is_modal s = (if target_is_modal then closeModal s else s)"

subsection \<open>Deletion\<close>

definition confirm_text :: string where
  "confirm_text = ''Are you sure you want to delete this POI?''"

text \<open>
  \<^verbatim>\<open>deletePOI\<close> runs in two parts. The first runs inside the caller, up to the first
  \<^verbatim>\<open>await\<close>: the blocking dialog, whose answer is the argument \<open>answer\<close>, and the
  request. It returns whether the call now waits for the response.
\<close>

definition deletePOI_begin :: "'n host \<Rightarrow> bool \<Rightarrow> 'n prim \<Rightarrow> 'n page \<Rightarrow> bool \<times> 'n page" where
  "deletePOI_begin H answer poiId s =
     (let s1 = emit (Confirm confirm_text) s in
      if \<not> answer then (False, s1)
      else (True, emit (Fetch ''DELETE'' (''/api/pois/'' @ ToString H poiId) None) s1))"

text \<open>
  The second part runs when the request has settled: the rest of the \<^verbatim>\<open>try\<close> block, with
  the reload, and the \<^verbatim>\<open>catch\<close>. The body of the response is never read.
\<close>

definition deletePOI_try ::
  "'n host \<Rightarrow> unit fetched \<Rightarrow> 'n collection fetched \<Rightarrow> 'n page \<Rightarrow> error option \<times> 'n page" where
  "deletePOI_try H response reload s =
     (case response of
        Rejected e \<Rightarrow> (Some e, s)
      | Responded status body \<Rightarrow>
          if \<not> ok status
          then (Some (Error (''HTTP error! status: '' @ show_nat status)), s)
          else loadPOIs H reload (clearLayers (emit (ConsoleLog ''POI deleted:'') s)))"

definition deletePOI_resume ::
  "'n host \<Rightarrow> unit fetched \<Rightarrow> 'n collection fetched \<Rightarrow> 'n page \<Rightarrow> 'n page" where
  "deletePOI_resume H response reload s =
     (case deletePOI_try H response reload s of
        (None, s') \<Rightarrow> s'
      | (Some error, s') \<Rightarrow>
          emit (Alert (''Failed to delete POI: '' @ message error))
            (emit (ConsoleError ''Error deleting POI:'' error) s'))"


text \<open>
  The handler of \<^verbatim>\<open>L.Draw.Event.DELETED\<close>. Each removed shape comes with what the outside
  world would answer for it: the user's answer to the dialog, the outcome of the DELETE
  request and the outcome of the reload; they are used only if the script asks.
  The handler does not await \<^verbatim>\<open>deletePOI\<close>: the loop runs the first part of every call,
  and the calls that wait are resumed afterwards, in the order of their requests.
\<close>

type_synonym 'n removal = "'n layer \<times> bool \<times> unit fetched \<times> 'n collection fetched"

fun deleted_each ::
  "'n host \<Rightarrow> 'n removal list \<Rightarrow> 'n page
     \<Rightarrow> error option \<times> (unit fetched \<times> 'n collection fetched) list \<times> 'n page" where
  "deleted_each H [] s = (None, [], s)"
| "deleted_each H ((shp, answer, response, reload) # rest) s =
     (case feature shp of
        None \<Rightarrow> deleted_each H rest s
      | Some feat \<Rightarrow>
          (case properties feat of
             None \<Rightarrow> (Some cannot_read, [], s)
           | Some props \<Rightarrow>
               if ToBoolean H (poi_id props)
               then (case deletePOI_begin H answer (poi_id props) s of
                       (waits, s1) \<Rightarrow>
                         (case deleted_each H rest s1 of
                            (err, pending, s2) \<Rightarrow>
                              (err, (if waits then [(response, reload)] else []) @ pending, s2)))
               else deleted_each H rest s))"

fun resume_all ::
  "'n host \<Rightarrow> (unit fetched \<times> 'n collection fetched) list \<Rightarrow> 'n page \<Rightarrow> 'n page" where
  "resume_all H [] s = s"
| "resume_all H ((response, reload) # rest) s =
     resume_all H rest (deletePOI_resume H response reload s)"

text \<open>The first component is the error that escapes the handler, if any.\<close>

definition on_draw_deleted :: "'n host \<Rightarrow> 'n removal list \<Rightarrow> 'n page \<Rightarrow> error option \<times> 'n page" where
  "on_draw_deleted H removed s =
     (case deleted_each H removed s of
        (err, pending, s1) \<Rightarrow> (err, resume_all H pending s1))"

subsection \<open>Submission handler\<close>

text \<open>
  \<^verbatim>\<open>String.prototype.trim\<close> strips the white space and the line terminators of the
  language from both ends: tab, vertical tab, form feed, the byte order mark U+FEFF, the
  space separators of Unicode (U+0020, U+00A0, U+1680, U+2000 to U+200A, U+202F, U+205F,
  U+3000), line feed, carriage return, U+2028 and U+2029. All of them are single code units.
\<close>

definition is_white_space :: "nat \<Rightarrow> bool" where
  "is_white_space u =
     (u \<in> set [0x0009, 0x000A, 0x000B, 0x000C, 0x000D, 0x0020, 0x00A0, 0x1680, 0x2028, 0x2029,
               0x202F, 0x205F, 0x3000, 0xFEFF]
      \<or> (0x2000 \<le> u \<and> u \<le> 0x200A))"

definition trim :: "code_units \<Rightarrow> code_units" where
  "trim text = rev (dropWhile is_white_space (rev (dropWhile is_white_space text)))"

text \<open>
  The part of the handler inside \<^verbatim>\<open>try\<close>, after the request has been issued.
\<close>

definition submit_try ::
  "'n host \<Rightarrow> 'n json fetched \<Rightarrow> 'n collection fetched \<Rightarrow> 'n page \<Rightarrow> error option \<times> 'n page" where
  "submit_try H response reload s =
     (case response of
        Rejected e \<Rightarrow> (Some e, s)
      | Responded status body \<Rightarrow>
          if \<not> ok status
          then (Some (Error (''HTTP error! status: '' @ show_nat status)), s)
          else (case body of
                  Inl e \<Rightarrow> (Some e, s)
                | Inr result \<Rightarrow>
                    (let s1 = emit (ConsoleLog ''POI created:'') s;
                         s2 = closeModal s1;
                         s3 = s2\<lparr>currentDrawing := None\<rparr>;
                         s4 = clearLayers s3
                     in case loadPOIs H reload s4 of
                          (Some e, s5) \<Rightarrow> (Some e, s5)
                        | (None, s5) \<Rightarrow> (None, emit (Alert ''POI created successfully!'') s5))))"

text \<open>
  The \<^verbatim>\<open>submit\<close> handler of the form. \<open>response\<close> is the outcome of the POST and \<open>reload\<close>
  the outcome of the GET that follows a success.
\<close>

definition on_submit ::
  "'n host \<Rightarrow> 'n json fetched \<Rightarrow> 'n collection fetched \<Rightarrow> 'n page \<Rightarrow> 'n page" where
  "on_submit H response reload s0 =
     (let s = emit PreventDefault s0 in
      case currentDrawing s of
        None \<Rightarrow> emit (Alert ''No geometry drawn'') s
      | Some drawing \<Rightarrow>
          (let name_text = poi_name_value s;
               poiType = poi_type_value s;
               address_text = poi_address_value s;
               propertiesText = poi_properties_value s
           in case (if trim propertiesText \<noteq> [] then JSON_parse H propertiesText
                    else Some (Prim Null)) of
                None \<Rightarrow> emit (Alert ''Invalid JSON in properties field'') s
              | Some parsed \<Rightarrow>
                  (let poi = Obj [(''name'', Prim (Str name_text)),
                                  (''poi_type'', Prim (Str poiType)),
                                  (''address'', Prim (Str address_text)),
                                  (''geometry'', shape drawing),
                                  (''properties'', parsed)];
                       s1 = emit (Fetch ''POST'' ''/api/pois'' (Some (JSON_stringify H poi 0))) s
                   in case submit_try H response reload s1 of
                        (None, s2) \<Rightarrow> s2
                      | (Some error, s2) \<Rightarrow>
                          emit (Alert (''Failed to create POI: '' @ message error))
                            (emit (ConsoleError ''Error creating POI:'' error) s2))))"

subsection \<open>Notions used to state the properties\<close>

text \<open>The requests in a log, and the addresses of its DELETE and GET requests.\<close>

fun is_request :: "effect \<Rightarrow> bool" where
  "is_request (Fetch m u b) = True"
| "is_request e = False"

definition requests :: "effect list \<Rightarrow> effect list" where
  "requests es = filter is_request es"

fun is_alert :: "effect \<Rightarrow> bool" where
  "is_alert (Alert m) = True"
| "is_alert e = False"

definition alerts :: "effect list \<Rightarrow> effect list" where
  "alerts es = filter is_alert es"

definition deletes :: "effect list \<Rightarrow> string list" where
  "deletes es = concat (map (\<lambda>e. case e of Fetch m u b \<Rightarrow> (if m = ''DELETE'' then [u] else [])
                                        | _ \<Rightarrow> []) es)"

text \<open>The three layer groups, and the group that the words of the specification give to
  a geometry-kind tag: in the edit-capable page and in the simplified viewer.\<close>

datatype layer_group = Points | Lines | Polygons

definition group_of_tag :: "'n prim \<Rightarrow> layer_group" where
  "group_of_tag tag =
     (if tag = Str ''ST_Point'' then Points
      else if tag = Str ''ST_LineString'' \<or> tag = Str ''ST_MultiLineString'' then Lines
      else Polygons)"

definition group_of_tag_viewer :: "'n prim \<Rightarrow> layer_group" where
  "group_of_tag_viewer tag = (if tag = Str ''ST_Point'' then Points else Polygons)"

definition tag_of :: "'n feature \<Rightarrow> 'n prim option" where
  "tag_of feat = map_option geom_type (properties feat)"

definition in_group :: "layer_group \<Rightarrow> 'n feature \<Rightarrow> bool" where
  "in_group g feat = (map_option group_of_tag (tag_of feat) = Some g)"

definition in_group_viewer :: "layer_group \<Rightarrow> 'n feature \<Rightarrow> bool" where
  "in_group_viewer g feat = (map_option group_of_tag_viewer (tag_of feat) = Some g)"

text \<open>The backend identifier attached to a shape, if any, and whether it is truthy.\<close>

definition id_of :: "'n layer \<Rightarrow> 'n prim option" where
  "id_of shp =
     (case feature shp of
        None \<Rightarrow> None
      | Some feat \<Rightarrow> map_option poi_id (properties feat))"

definition has_id :: "'n host \<Rightarrow> 'n layer \<Rightarrow> bool" where
  "has_id H shp = (case id_of shp of None \<Rightarrow> False | Some i \<Rightarrow> ToBoolean H i)"

definition delete_url :: "'n host \<Rightarrow> 'n layer \<Rightarrow> string" where
  "delete_url H shp =
     (case id_of shp of None \<Rightarrow> [] | Some i \<Rightarrow> ''/api/pois/'' @ ToString H i)"

definition readable :: "'n layer \<Rightarrow> bool" where
  "readable shp = (case feature shp of None \<Rightarrow> True | Some feat \<Rightarrow> properties feat \<noteq> None)"

text \<open>The options that \<^verbatim>\<open>getPolygonStyle\<close> builds around a colour.\<close>

fun group_layer :: "layer_group \<Rightarrow> 'n page \<Rightarrow> 'n rendered list" where
  "group_layer Points s = pointLayer s"
| "group_layer Lines s = lineLayer s"
| "group_layer Polygons s = polygonLayer s"

definition polygon_options :: "string \<Rightarrow> path_options" where
  "polygon_options c =
     \<lparr>radius = None, fillColor = Some c, color = c, weight = 2, opacity = 0.8,
      fillOpacity = Some 0.5\<rparr>"

text \<open>The entries that the loops of the loader add, written without the loops.\<close>

definition rendered_as :: "'n host \<Rightarrow> path_options \<Rightarrow> 'n feature \<Rightarrow> 'n rendered" where
  "rendered_as H opts feat =
     \<lparr>source = feat, options = opts,
      popup = (case createPopupContent H feat of Inl e \<Rightarrow> [] | Inr html \<Rightarrow> html)\<rparr>"

definition editable :: "'n feature \<Rightarrow> 'n layer" where
  "editable feat = \<lparr>feature = Some feat, shape = geometry feat\<rparr>"

definition polygons_from :: "'n host \<Rightarrow> nat \<Rightarrow> 'n feature list \<Rightarrow> 'n rendered list" where
  "polygons_from H k fs =
     map (\<lambda>(i, feat). rendered_as H (polygon_options (polygonColors ! (i mod 10))) feat)
       (enumerate k fs)"

text \<open>Whether the nested \<^verbatim>\<open>properties\<close> value passes the test of the popup renderer:
  it is truthy and has at least one own key.\<close>

definition has_entries :: "'n host \<Rightarrow> 'n json \<Rightarrow> bool" where
  "has_entries H v =
     (truthy H v \<and> (case Object_keys_length v of Inl e \<Rightarrow> False | Inr n \<Rightarrow> n > 0))"

text \<open>The pieces of markup that the popup renderer puts together.\<close>

definition popup_line :: "string \<Rightarrow> string \<Rightarrow> string" where
  "popup_line label text = ''<p><strong>'' @ label @ '':</strong> '' @ text @ ''</p>''"

definition popup_dump :: "string \<Rightarrow> string" where
  \<open>popup_dump text =
     ''<div class="properties"><strong>Additional Properties:</strong><br><pre>'' @ text
     @ ''</pre></div>''\<close>

definition popup_frame :: "string \<Rightarrow> string \<Rightarrow> string" where
  \<open>popup_frame heading rest =
     ''<div class="popup-content"><h3>'' @ heading @ ''</h3>'' @ rest @ ''</div>''\<close>

subsection \<open>Sample data\<close>

text \<open>
  A host over the integers, on which the model is run on concrete inputs. Numbers print in
  decimal. \<^verbatim>\<open>JSON.parse\<close> and \<^verbatim>\<open>JSON.stringify\<close> are given as tables of their values on
  the texts and values of the examples; elsewhere the entries are placeholders.
\<close>

definition sample_hours :: "int json" where
  \<open>sample_hours = Obj [(''hours'', Prim (Str ''9-17''))]\<close>

definition sample_poi :: "int json" where
  "sample_poi =
     Obj [(''name'', Prim (Str ''Kiosk'')), (''poi_type'', Prim (Str [])),
          (''address'', Prim (Str [])),
          (''geometry'', Obj [(''type'', Prim (Str ''Point'')),
                              (''coordinates'', Arr [Prim (Num 112), Prim (Num 28)])]),
          (''properties'', Prim Null)]"

definition sample_host :: "int host" where
  \<open>sample_host =
     \<lparr>Number_toBoolean = (\<lambda>n. n \<noteq> 0),
      Number_toString = (\<lambda>n. if n < 0 then CHR ''-'' # show_nat (nat (- n)) else show_nat (nat n)),
      JSON_parse =
        (\<lambda>text. if text = units ''{"hours": "9-17"}'' then Some sample_hours else None),
      JSON_stringify =
        (\<lambda>v indent.
           if v = sample_hours \<and> indent = 2
           then ''{'' @ [CHR 0x0A] @ ''  "hours": "9-17"'' @ [CHR 0x0A] @ ''}''
           else if v = sample_poi \<and> indent = 0
           then ''{"name":"Kiosk","poi_type":"","address":"","geometry":{"type":"Point",''
                @ ''"coordinates":[112,28]},"properties":null}''
           else ''null'')\<rparr>\<close>

definition cafe :: "int feature" where
  "cafe =
     \<lparr>properties = Some \<lparr>name = Str ''Cafe'', poi_type = Str ''food'', address = Null,
                          poi_id = Num 1, geom_type = Str ''ST_Point'', extra = sample_hours\<rparr>,
      geometry = Obj [(''type'', Prim (Str ''Point'')),
                      (''coordinates'', Arr [Prim (Num 113), Prim (Num 28)])]\<rparr>"

definition road :: "int feature" where
  "road =
     \<lparr>properties = Some \<lparr>name = Str ''Ring road'', poi_type = Undefined, address = Undefined,
                          poi_id = Num 2, geom_type = Str ''ST_LineString'',
                          extra = Prim Undefined\<rparr>,
      geometry = Obj [(''type'', Prim (Str ''LineString'')),
                      (''coordinates'', Arr [Arr [Prim (Num 112), Prim (Num 28)],
                                             Arr [Prim (Num 113), Prim (Num 29)]])]\<rparr>"

definition park :: "int feature" where
  "park =
     \<lparr>properties = Some \<lparr>name = Undefined, poi_type = Str ''park'', address = Str ''Main St'',
                          poi_id = Num 3, geom_type = Str ''ST_Polygon'', extra = Obj []\<rparr>,
      geometry = Obj [(''type'', Prim (Str ''Polygon'')),
                      (''coordinates'',
                       Arr [Arr [Arr [Prim (Num 112), Prim (Num 28)],
                                 Arr [Prim (Num 113), Prim (Num 28)],
                                 Arr [Prim (Num 113), Prim (Num 29)],
                                 Arr [Prim (Num 112), Prim (Num 28)]]])]\<rparr>"

definition lake :: "int feature" where
  "lake =
     \<lparr>properties = Some \<lparr>name = Str ''Lake'', poi_type = Null, address = Null,
                          poi_id = Num 4, geom_type = Str ''ST_MultiPolygon'', extra = Prim Null\<rparr>,
      geometry = Obj [(''type'', Prim (Str ''MultiPolygon'')), (''coordinates'', Arr [])]\<rparr>"


definition bare :: "int feature" where
  "bare = \<lparr>properties = None, geometry = Prim Null\<rparr>"

definition sample_collection :: "int collection" where
  "sample_collection = \<lparr>features = Features [park, cafe, road, lake]\<rparr>"

text \<open>A shape as the draw tool hands it over, and the page once the user has drawn it on
  the freshly opened page and typed into the form.\<close>

definition drawn_marker :: "int layer" where
  "drawn_marker =
     \<lparr>feature = None,
      shape = Obj [(''type'', Prim (Str ''Point'')),
                   (''coordinates'', Arr [Prim (Num 112), Prim (Num 28)])]\<rparr>"

definition drawn_page :: "code_units \<Rightarrow> int page" where
  "drawn_page text =
     (on_draw_created drawn_marker initial_page)
       \<lparr>poi_name_value := ''Kiosk'', poi_properties_value := text\<rparr>"

section \<open>Properties\<close>

subsection \<open>Facts about the popup renderer and the loops of the loaders\<close>

lemma emit_simps [simp]:
  "effects (emit e s) = effects s @ [e]"
  "pointLayer (emit e s) = pointLayer s"
  "lineLayer (emit e s) = lineLayer s"
  "polygonLayer (emit e s) = polygonLayer s"
  "drawnItems (emit e s) = drawnItems s"
  "currentDrawing (emit e s) = currentDrawing s"
  "colorIndex (emit e s) = colorIndex s"
  "poi_count (emit e s) = poi_count s"
  "poi_modal_display (emit e s) = poi_modal_display s"
  "poi_name_value (emit e s) = poi_name_value s"
  "poi_type_value (emit e s) = poi_type_value s"
  "poi_address_value (emit e s) = poi_address_value s"
  "poi_properties_value (emit e s) = poi_properties_value s"
  by (simp_all add: emit_def)

lemma popup_defined:
  "properties feat = Some p \<Longrightarrow> \<exists>html. createPopupContent H feat = Inr html"
proof -
  assume a: "properties feat = Some p"
  show ?thesis
  proof (cases "extra p")
    case (Prim q)
    then show ?thesis using a by (cases q) (simp_all add: createPopupContent_def Let_def)
  next
    case (Arr xs)
    then show ?thesis using a by (simp add: createPopupContent_def Let_def)
  next
    case (Obj kvs)
    then show ?thesis using a by (simp add: createPopupContent_def Let_def)
  qed
qed

lemma popup_rendered:
  "properties feat = Some p \<Longrightarrow>
     createPopupContent H feat = Inr (popup (rendered_as H opts feat))"
  using popup_defined [of feat p H] by (auto simp: rendered_as_def)

lemma group_of_tag_iff:
  "(group_of_tag t = Points) = (t = Str ''ST_Point'')"
  "(group_of_tag t = Lines) = (t = Str ''ST_LineString'' \<or> t = Str ''ST_MultiLineString'')"
  "(group_of_tag t = Polygons) =
     (t \<noteq> Str ''ST_Point'' \<and> t \<noteq> Str ''ST_LineString'' \<and> t \<noteq> Str ''ST_MultiLineString'')"
  by (auto simp: group_of_tag_def)

lemma in_group_iff:
  "properties f = Some p \<Longrightarrow> in_group g f = (group_of_tag (geom_type p) = g)"
  by (simp add: in_group_def tag_of_def)

lemma rendered_as_eq:
  "createPopupContent H f = Inr html \<Longrightarrow>
     \<lparr>source = f, options = opts, popup = html\<rparr> = rendered_as H opts f"
  by (simp add: rendered_as_def)

lemma classify_each_ok:
  "\<forall>f \<in> set fs. properties f \<noteq> None \<Longrightarrow>
   classify_each H fs pts pgs s =
     (None, pts @ filter (in_group Points) fs, pgs @ filter (in_group Polygons) fs,
      s\<lparr>lineLayer := lineLayer s @ map (rendered_as H line_style) (filter (in_group Lines) fs),
        drawnItems := drawnItems s @ map editable (filter (in_group Lines) fs)\<rparr>)"
proof (induction fs arbitrary: pts pgs s)
  case Nil
  then show ?case by simp
next
  case (Cons f fs)
  then obtain p where p: "properties f = Some p" by auto
  from Cons.prems have rest: "\<forall>f \<in> set fs. properties f \<noteq> None" by simp
  note IH = Cons.IH [OF rest]
  obtain html where html: "createPopupContent H f = Inr html"
    using popup_defined [OF p] by blast
  note r = rendered_as_eq [OF html]
  show ?case
  proof (cases "group_of_tag (geom_type p)")
    case Points
    then show ?thesis
      using p by (simp add: IH in_group_iff group_of_tag_iff)
  next
    case Lines
    then have "geom_type p \<noteq> Str ''ST_Point''"
      by (auto simp: group_of_tag_iff)
    then show ?thesis
      using p Lines html by (simp add: IH in_group_iff group_of_tag_iff r editable_def)
  next
    case Polygons
    then show ?thesis
      using p by (simp add: IH in_group_iff group_of_tag_iff)
  qed
qed

lemma add_points_ok:
  "\<forall>f \<in> set fs. properties f \<noteq> None \<Longrightarrow>
   add_points H fs s =
     (None, s\<lparr>pointLayer := pointLayer s @ map (rendered_as H circle_marker_style) fs,
              drawnItems := drawnItems s @ map editable fs\<rparr>)"
proof (induction fs arbitrary: s)
  case Nil
  then show ?case by simp
next
  case (Cons f fs)
  then obtain p where p: "properties f = Some p" by auto
  from Cons.prems have rest: "\<forall>f \<in> set fs. properties f \<noteq> None" by simp
  obtain html where html: "createPopupContent H f = Inr html"
    using popup_defined [OF p] by blast
  show ?case
    by (simp add: Cons.IH [OF rest] html rendered_as_eq [OF html] editable_def)
qed

lemma getPolygonStyle_eq:
  "getPolygonStyle s =
     (polygon_options (polygonColors ! (colorIndex s mod 10)), s\<lparr>colorIndex := Suc (colorIndex s)\<rparr>)"
  by (simp add: getPolygonStyle_def getPolygonColor_def polygon_options_def polygonColors_def)

lemma add_polygons_ok:
  "\<forall>f \<in> set fs. properties f \<noteq> None \<Longrightarrow>
   add_polygons H fs s =
     (None, s\<lparr>polygonLayer := polygonLayer s @ polygons_from H (colorIndex s) fs,
              drawnItems := drawnItems s @ map editable fs,
              colorIndex := colorIndex s + length fs\<rparr>)"
proof (induction fs arbitrary: s)
  case Nil
  then show ?case by (simp add: polygons_from_def)
next
  case (Cons f fs)
  then obtain p where p: "properties f = Some p" by auto
  from Cons.prems have rest: "\<forall>f \<in> set fs. properties f \<noteq> None" by simp
  obtain html where html: "createPopupContent H f = Inr html"
    using popup_defined [OF p] by blast
  show ?case
    by (simp add: Cons.IH [OF rest] html rendered_as_eq [OF html] editable_def
          getPolygonStyle_eq polygons_from_def)
qed


lemma classify_each_effects:
  "classify_each H fs pts pgs s = (e, a, b, s') \<Longrightarrow> effects s' = effects s"
proof (induction fs arbitrary: pts pgs s)
  case Nil
  then show ?case by simp
next
  case (Cons f fs)
  then show ?case
    by (fastforce split: option.splits if_splits sum.splits)
qed

lemma add_points_effects:
  "add_points H fs s = (e, s') \<Longrightarrow> effects s' = effects s"
proof (induction fs arbitrary: s)
  case Nil
  then show ?case by simp
next
  case (Cons f fs)
  then show ?case
    by (fastforce split: sum.splits)
qed

lemma add_polygons_effects:
  "add_polygons H fs s = (e, s') \<Longrightarrow> effects s' = effects s"
proof (induction fs arbitrary: s)
  case Nil
  then show ?case by simp
next
  case (Cons f fs)
  then show ?case
    by (fastforce simp: getPolygonStyle_eq split: sum.splits)
qed

lemma requests_append [simp]: "requests (xs @ ys) = requests xs @ requests ys"
  by (simp add: requests_def)

lemma requests_simps [simp]:
  "requests [] = []"
  "requests (Fetch m u b # es) = Fetch m u b # requests es"
  "requests (Alert t # es) = requests es"
  "requests (Confirm t # es) = requests es"
  "requests (ConsoleLog t # es) = requests es"
  "requests (ConsoleError t err # es) = requests es"
  "requests (FitBounds # es) = requests es"
  "requests (PreventDefault # es) = requests es"
  "requests (Focus t # es) = requests es"
  by (simp_all add: requests_def)

lemma read_features_frame:
  "read_features H m s = Inl (e, s') \<Longrightarrow>
     effects s' = effects s \<and> drawnItems s' = drawnItems s"
  "read_features H m s = Inr (fs, s') \<Longrightarrow>
     effects s' = effects s \<and> drawnItems s' = drawnItems s \<and> m = Features fs"
  unfolding read_features_def Let_def
  by (auto split: if_splits sum.splits member.splits)

lemma render_features_effects:
  "render_features H fs s = (e, s') \<Longrightarrow> effects s' = effects s"
  unfolding render_features_def
  by (auto split: option.splits prod.splits
        dest!: classify_each_effects add_points_effects add_polygons_effects)

lemma loadPOIs_try_effects:
  assumes run: "loadPOIs_try H response s = (e, s')"
  shows "effects s' = effects s @ [Fetch ''GET'' ''/api/pois'' None]"
proof (cases response)
  case (Rejected err)
  then show ?thesis using run by (auto simp: loadPOIs_try_def Let_def)
next
  case (Responded status body)
  show ?thesis
  proof (cases body)
    case (Inl err)
    then show ?thesis
      using run Responded by (auto simp: loadPOIs_try_def Let_def)
  next
    case (Inr geojson)
    note body = this
    show ?thesis
    proof (cases "read_features H (features geojson) (emit (Fetch ''GET'' ''/api/pois'' None) s)")
      case (Inl ended)
      then have "read_features H (features geojson) (emit (Fetch ''GET'' ''/api/pois'' None) s)
                   = Inl (e, s')"
        using run Responded body by (simp add: loadPOIs_try_def Let_def)
      from read_features_frame(1) [OF this] show ?thesis by simp
    next
      case (Inr started)
      obtain fs s1 where started: "started = (fs, s1)" by (cases started)
      have "effects s1 = effects (emit (Fetch ''GET'' ''/api/pois'' None) s)"
        using read_features_frame(2) Inr started by blast
      moreover have "render_features H fs s1 = (e, s')"
        using run Responded body Inr started
        by (simp add: loadPOIs_try_def Let_def)
      ultimately show ?thesis
        using render_features_effects by fastforce
    qed
  qed
qed

lemma loadPOIs_try_requests:
  "loadPOIs_try H response s = (e, s') \<Longrightarrow>
     requests (effects s') = requests (effects s) @ [Fetch ''GET'' ''/api/pois'' None]"
  by (simp add: loadPOIs_try_effects)

lemma loadPOIs_requests:
  "requests (effects (snd (loadPOIs H response s)))
     = requests (effects s) @ [Fetch ''GET'' ''/api/pois'' None]"
  by (cases "loadPOIs_try H response s")
     (auto simp: loadPOIs_def split: option.splits dest: loadPOIs_try_requests)

lemma loadPOIs_returns: "fst (loadPOIs H response s) = None"
  by (simp add: loadPOIs_def split: prod.splits option.splits)


lemma group_of_tag_viewer_iff:
  "(group_of_tag_viewer t = Points) = (t = Str ''ST_Point'')"
  "(group_of_tag_viewer t = Polygons) = (t \<noteq> Str ''ST_Point'')"
  "group_of_tag_viewer t \<noteq> Lines"
  by (auto simp: group_of_tag_viewer_def)

lemma in_group_viewer_iff:
  "properties f = Some p \<Longrightarrow> in_group_viewer g f = (group_of_tag_viewer (geom_type p) = g)"
  by (simp add: in_group_viewer_def tag_of_def)

lemma classify_each_viewer_ok:
  "\<forall>f \<in> set fs. properties f \<noteq> None \<Longrightarrow>
   classify_each_viewer fs pts pgs =
     (None, pts @ filter (in_group_viewer Points) fs, pgs @ filter (in_group_viewer Polygons) fs)"
proof (induction fs arbitrary: pts pgs)
  case Nil
  then show ?case by simp
next
  case (Cons f fs)
  then obtain p where p: "properties f = Some p" by auto
  from Cons.prems have rest: "\<forall>f \<in> set fs. properties f \<noteq> None" by simp
  show ?case
    using p by (simp add: Cons.IH [OF rest] in_group_viewer_iff group_of_tag_viewer_iff)
qed

lemma add_points_viewer_ok:
  "\<forall>f \<in> set fs. properties f \<noteq> None \<Longrightarrow>
   add_points_viewer H fs s =
     (None, s\<lparr>pointLayer := pointLayer s @ map (rendered_as H circle_marker_style) fs\<rparr>)"
proof (induction fs arbitrary: s)
  case Nil
  then show ?case by simp
next
  case (Cons f fs)
  then obtain p where p: "properties f = Some p" by auto
  from Cons.prems have rest: "\<forall>f \<in> set fs. properties f \<noteq> None" by simp
  obtain html where html: "createPopupContent H f = Inr html"
    using popup_defined [OF p] by blast
  show ?case
    by (simp add: Cons.IH [OF rest] html rendered_as_eq [OF html])
qed

lemma add_polygons_viewer_ok:
  "\<forall>f \<in> set fs. properties f \<noteq> None \<Longrightarrow>
   add_polygons_viewer H fs s =
     (None, s\<lparr>polygonLayer := polygonLayer s @ polygons_from H (colorIndex s) fs,
              colorIndex := colorIndex s + length fs\<rparr>)"
proof (induction fs arbitrary: s)
  case Nil
  then show ?case by (simp add: polygons_from_def)
next
  case (Cons f fs)
  then obtain p where p: "properties f = Some p" by auto
  from Cons.prems have rest: "\<forall>f \<in> set fs. properties f \<noteq> None" by simp
  obtain html where html: "createPopupContent H f = Inr html"
    using popup_defined [OF p] by blast
  show ?case
    by (simp add: Cons.IH [OF rest] html rendered_as_eq [OF html]
          getPolygonStyle_eq polygons_from_def)
qed

lemma read_features_Features:
  "fs \<noteq> [] \<Longrightarrow>
     read_features H (Features fs) s
       = Inr (fs, s\<lparr>poi_count := ''Total POIs: '' @ show_nat (length fs)\<rparr>)"
  by (simp add: read_features_def)

lemma loadPOIs_loaded:
  fixes H :: "'n host" and status :: nat and s :: "'n page"
  assumes "features geojson = Features fs" and "fs \<noteq> []"
    and "\<forall>f \<in> set fs. properties f \<noteq> None"
  defines "s' \<equiv> snd (loadPOIs H (Responded status (Inr geojson)) s)"
  shows "pointLayer s' =
           pointLayer s @ map (rendered_as H circle_marker_style) (filter (in_group Points) fs)"
    and "lineLayer s' =
           lineLayer s @ map (rendered_as H line_style) (filter (in_group Lines) fs)"
    and "polygonLayer s' =
           polygonLayer s @ polygons_from H (colorIndex s) (filter (in_group Polygons) fs)"
    and "drawnItems s' =
           drawnItems s @ map editable (filter (in_group Lines) fs @ filter (in_group Points) fs
                                         @ filter (in_group Polygons) fs)"
    and "colorIndex s' = colorIndex s + length (filter (in_group Polygons) fs)"
    and "poi_count s' = ''Error loading POIs''"
  using assms(1-3) unfolding s'_def loadPOIs_def loadPOIs_try_def render_features_def Let_def
  by (simp_all add: read_features_Features classify_each_ok add_points_ok add_polygons_ok)

lemma loadPOIs_viewer_loaded:
  fixes H :: "'n host" and status :: nat and s :: "'n page"
  assumes "features geojson = Features fs" and "fs \<noteq> []"
    and "\<forall>f \<in> set fs. properties f \<noteq> None"
  defines "s' \<equiv> snd (loadPOIs_viewer H (Responded status (Inr geojson)) s)"
  shows "pointLayer s' =
           pointLayer s @ map (rendered_as H circle_marker_style) (filter (in_group_viewer Points) fs)"
    and "lineLayer s' = lineLayer s"
    and "polygonLayer s' =
           polygonLayer s @ polygons_from H (colorIndex s) (filter (in_group_viewer Polygons) fs)"
    and "drawnItems s' = drawnItems s"
    and "colorIndex s' = colorIndex s + length (filter (in_group_viewer Polygons) fs)"
    and "poi_count s' = ''Error loading POIs''"
  using assms(1-3)
  unfolding s'_def loadPOIs_viewer_def loadPOIs_try_viewer_def render_features_viewer_def Let_def
  by (simp_all add: read_features_Features classify_each_viewer_ok add_points_viewer_ok
        add_polygons_viewer_ok)

lemma source_rendered_as [simp]: "source (rendered_as H opts f) = f"
  by (simp add: rendered_as_def)

lemma options_rendered_as [simp]: "options (rendered_as H opts f) = opts"
  by (simp add: rendered_as_def)

lemma map_source_rendered_as [simp]: "map source (map (rendered_as H opts) fs) = fs"
  by (induction fs) simp_all

lemma map_source_polygons_from [simp]: "map source (polygons_from H k fs) = fs"
  unfolding polygons_from_def by (induction fs arbitrary: k) simp_all

lemma map_options_polygons_from:
  "map options (polygons_from H k fs)
     = map (\<lambda>i. polygon_options (polygonColors ! (i mod 10))) [k ..< k + length fs]"
proof -
  have "map options (polygons_from H k fs)
          = map ((\<lambda>i. polygon_options (polygonColors ! (i mod 10))) \<circ> fst) (enumerate k fs)"
    by (simp add: polygons_from_def case_prod_beta comp_def)
  also have "\<dots> = map (\<lambda>i. polygon_options (polygonColors ! (i mod 10)))
                     (map fst (enumerate k fs))"
    by (simp only: map_map)
  finally show ?thesis by (simp only: map_fst_enumerate)
qed

lemma createPopupContent_Some:
  assumes "properties feat = Some p"
  shows "createPopupContent H feat =
     Inr (popup_frame (if ToBoolean H (name p) then ToString H (name p) else ''Unnamed POI'')
            ((if ToBoolean H (poi_type p) then popup_line ''Type'' (ToString H (poi_type p)) else [])
             @ (if ToBoolean H (address p) then popup_line ''Address'' (ToString H (address p))
                else [])
             @ popup_line ''ID'' (ToString H (poi_id p))
             @ popup_line ''Geometry'' (ToString H (geom_type p))
             @ (if has_entries H (extra p) then popup_dump (JSON_stringify H (extra p) 2)
                else [])))"
proof -
  have if_app: "\<And>c (xs :: string) ys. (if c then xs @ ys else xs) = xs @ (if c then ys else [])"
    by simp
  have "has_entries H (extra p) \<or> \<not> has_entries H (extra p)" by simp
  then show ?thesis
  proof
    assume h: "has_entries H (extra p)"
    then obtain n where "truthy H (extra p)" "Object_keys_length (extra p) = Inr n" "n > 0"
      by (auto simp: has_entries_def split: sum.splits)
    then show ?thesis
      using assms h
      by (simp add: createPopupContent_def Let_def popup_frame_def popup_line_def popup_dump_def
            if_app split del: if_split cong del: if_weak_cong)
  next
    assume h: "\<not> has_entries H (extra p)"
    then have "\<not> truthy H (extra p) \<or> Object_keys_length (extra p) = Inr 0"
      by (cases "extra p" rule: Object_keys_length.cases) (auto simp: has_entries_def)
    then show ?thesis
    proof
      assume "\<not> truthy H (extra p)"
      then show ?thesis
        using assms h
        by (simp add: createPopupContent_def Let_def popup_frame_def popup_line_def
              if_app split del: if_split cong del: if_weak_cong)
    next
      assume "Object_keys_length (extra p) = Inr 0"
      then show ?thesis
        using assms h
        by (simp add: createPopupContent_def Let_def popup_frame_def popup_line_def
              if_app split del: if_split cong del: if_weak_cong)
    qed
  qed
qed

lemma has_entries_cases:
  "has_entries H (Prim Undefined) = False"
  "has_entries H (Prim Null) = False"
  "has_entries H (Obj kvs) = (kvs \<noteq> [])"
  "has_entries H (Arr xs) = (xs \<noteq> [])"
  by (simp_all add: has_entries_def)

lemma popup_line_not_Nil: "popup_line label text \<noteq> []"
  by (simp add: popup_line_def)

lemma popup_dump_not_Nil: "popup_dump text \<noteq> []"
  by (simp add: popup_dump_def)

lemma deletes_simps [simp]:
  "deletes [] = []"
  "deletes (xs @ ys) = deletes xs @ deletes ys"
  "deletes (Fetch m u b # es) = (if m = ''DELETE'' then [u] else []) @ deletes es"
  "deletes (Alert t # es) = deletes es"
  "deletes (Confirm t # es) = deletes es"
  "deletes (ConsoleLog t # es) = deletes es"
  "deletes (ConsoleError t err # es) = deletes es"
  "deletes (FitBounds # es) = deletes es"
  "deletes (PreventDefault # es) = deletes es"
  "deletes (Focus t # es) = deletes es"
  by (simp_all add: deletes_def)

lemma deletes_requests: "deletes (requests es) = deletes es"
proof (induction es)
  case Nil
  then show ?case by simp
next
  case (Cons e es)
  then show ?case by (cases e) simp_all
qed

lemma loadPOIs_deletes: "deletes (effects (snd (loadPOIs H response s))) = deletes (effects s)"
proof -
  have "deletes (requests (effects (snd (loadPOIs H response s))))
          = deletes (requests (effects s) @ [Fetch ''GET'' ''/api/pois'' None])"
    by (simp only: loadPOIs_requests)
  then show ?thesis by (simp add: deletes_requests)
qed

lemma deletePOI_resume_deletes:
  "deletes (effects (deletePOI_resume H response reload s)) = deletes (effects s)"
proof (cases response)
  case (Rejected e)
  then show ?thesis by (simp add: deletePOI_resume_def deletePOI_try_def)
next
  case (Responded status body)
  show ?thesis
  proof (cases "ok status")
    case True
    obtain s' where s': "loadPOIs H reload (clearLayers (emit (ConsoleLog ''POI deleted:'') s))
                          = (None, s')"
      using loadPOIs_returns [of H reload "clearLayers (emit (ConsoleLog ''POI deleted:'') s)"]
      by (cases "loadPOIs H reload (clearLayers (emit (ConsoleLog ''POI deleted:'') s))") simp
    have "deletes (effects s') = deletes (effects (clearLayers (emit (ConsoleLog ''POI deleted:'') s)))"
      using loadPOIs_deletes [of H reload "clearLayers (emit (ConsoleLog ''POI deleted:'') s)"] s'
      by simp
    then show ?thesis
      using Responded True s' by (simp add: deletePOI_resume_def deletePOI_try_def clearLayers_def)
  next
    case False
    then show ?thesis using Responded by (simp add: deletePOI_resume_def deletePOI_try_def)
  qed
qed

lemma resume_all_deletes:
  "deletes (effects (resume_all H pending s)) = deletes (effects s)"
proof (induction pending arbitrary: s)
  case Nil
  then show ?case by simp
next
  case (Cons a pending)
  then show ?case by (cases a) (simp add: deletePOI_resume_deletes)
qed

lemma id_of_cases:
  "feature shp = None \<Longrightarrow> id_of shp = None"
  "feature shp = Some f \<Longrightarrow> properties f = Some p \<Longrightarrow> id_of shp = Some (poi_id p)"
  by (simp_all add: id_of_def)

lemma deleted_each_deletes:
  assumes "\<forall>r \<in> set removed. readable (fst r)"
  shows "\<exists>pending s'. deleted_each H removed s = (None, pending, s')
           \<and> deletes (effects s')
               = deletes (effects s)
                 @ map (\<lambda>r. delete_url H (fst r))
                     (filter (\<lambda>r. has_id H (fst r) \<and> fst (snd r)) removed)"
  using assms
proof (induction removed arbitrary: s)
  case Nil
  then show ?case by simp
next
  case (Cons r removed)
  obtain shp answer response reload where r: "r = (shp, answer, response, reload)"
    by (cases r) auto
  from Cons.prems have rest: "\<forall>r \<in> set removed. readable (fst r)" and rd: "readable shp"
    by (simp_all add: r)
  note IH = Cons.IH [OF rest]
  show ?case
  proof (cases "feature shp")
    case None
    then show ?thesis
      using IH [of s] by (simp add: r has_id_def id_of_cases)
  next
    case (Some f)
    with rd obtain p where p: "properties f = Some p"
      by (auto simp: readable_def)
    show ?thesis
    proof (cases "ToBoolean H (poi_id p)")
      case False
      then show ?thesis
        using IH [of s] Some p by (simp add: r has_id_def id_of_cases)
    next
      case True
      obtain pending s' where
        step: "deleted_each H removed (snd (deletePOI_begin H answer (poi_id p) s))
                 = (None, pending, s')"
        and d: "deletes (effects s')
               = deletes (effects (snd (deletePOI_begin H answer (poi_id p) s)))
                 @ map (\<lambda>r. delete_url H (fst r))
                     (filter (\<lambda>r. has_id H (fst r) \<and> fst (snd r)) removed)"
        using IH [of "snd (deletePOI_begin H answer (poi_id p) s)"] by blast
      show ?thesis
        using Some p True step d
        by (cases answer)
           (simp_all add: r has_id_def id_of_cases delete_url_def deletePOI_begin_def Let_def)
    qed
  qed
qed






lemma drawn_page_fields:
  "currentDrawing (drawn_page t) = Some drawn_marker"
  "drawnItems (drawn_page t) = [drawn_marker]"
  "poi_properties_value (drawn_page t) = t"
  "poi_name_value (drawn_page t) = ''Kiosk''"
  "poi_type_value (drawn_page t) = []"
  "poi_address_value (drawn_page t) = []"
  "poi_modal_display (drawn_page t) = ''block''"
  "effects (drawn_page t) = [Focus ''poi-name'']"
  by (simp_all add: drawn_page_def on_draw_created_def openModal_def emit_def initial_page_def)

lemma closeModal_frame [simp]:
  "effects (closeModal s) = effects s"
  by (simp add: closeModal_def Let_def split: option.splits)

lemma clearLayers_simps [simp]:
  "pointLayer (clearLayers s) = []"
  "lineLayer (clearLayers s) = []"
  "polygonLayer (clearLayers s) = []"
  "drawnItems (clearLayers s) = []"
  "colorIndex (clearLayers s) = 0"
  "effects (clearLayers s) = effects s"
  by (simp_all add: clearLayers_def)

text \<open>The three ways through the submit handler up to its request.\<close>

lemma on_submit_no_drawing:
  "currentDrawing s = None \<Longrightarrow>
     on_submit H response reload s = emit (Alert ''No geometry drawn'') (emit PreventDefault s)"
  by (simp add: on_submit_def Let_def)

lemma on_submit_bad_json:
  "currentDrawing s = Some drawing \<Longrightarrow> trim (poi_properties_value s) \<noteq> [] \<Longrightarrow>
   JSON_parse H (poi_properties_value s) = None \<Longrightarrow>
     on_submit H response reload s
       = emit (Alert ''Invalid JSON in properties field'') (emit PreventDefault s)"
  by (simp add: on_submit_def Let_def)

lemma on_submit_success:
  assumes "currentDrawing s = Some drawing"
    and "trim (poi_properties_value s) = [] \<or> JSON_parse H (poi_properties_value s) \<noteq> None"
    and "ok status"
  shows "\<exists>cleared body.
           pointLayer cleared = [] \<and> lineLayer cleared = [] \<and> polygonLayer cleared = []
           \<and> drawnItems cleared = [] \<and> colorIndex cleared = 0
           \<and> requests (effects cleared)
               = requests (effects s) @ [Fetch ''POST'' ''/api/pois'' (Some body)]
           \<and> on_submit H (Responded status (Inr result)) reload s
               = emit (Alert ''POI created successfully!'') (snd (loadPOIs H reload cleared))
           \<and> requests (effects (on_submit H (Responded status (Inr result)) reload s))
               = requests (effects s)
                 @ [Fetch ''POST'' ''/api/pois'' (Some body), Fetch ''GET'' ''/api/pois'' None]"
proof -
  obtain parsed where parsed:
    "(if trim (poi_properties_value s) \<noteq> [] then JSON_parse H (poi_properties_value s)
      else Some (Prim Null)) = Some parsed"
    using assms(2) by (cases "trim (poi_properties_value s) = []") auto
  define body where
    "body = JSON_stringify H
              (Obj [(''name'', Prim (Str (poi_name_value s))),
                    (''poi_type'', Prim (Str (poi_type_value s))),
                    (''address'', Prim (Str (poi_address_value s))),
                    (''geometry'', shape drawing),
                    (''properties'', parsed)]) 0"
  define cleared where
    "cleared = clearLayers
        ((closeModal (emit (ConsoleLog ''POI created:'')
            (emit (Fetch ''POST'' ''/api/pois'' (Some body)) (emit PreventDefault s))))
         \<lparr>currentDrawing := None\<rparr>)"
  obtain s5 where s5: "loadPOIs H reload cleared = (None, s5)"
    using loadPOIs_returns [of H reload cleared] by (cases "loadPOIs H reload cleared") simp
  have run: "on_submit H (Responded status (Inr result)) reload s
               = emit (Alert ''POI created successfully!'') (snd (loadPOIs H reload cleared))"
    using assms(1,3) parsed s5
    by (simp add: on_submit_def submit_try_def Let_def body_def [symmetric]
          cleared_def [symmetric] split del: if_split)
  have cl: "pointLayer cleared = []" "lineLayer cleared = []" "polygonLayer cleared = []"
    "drawnItems cleared = []" "colorIndex cleared = 0"
    by (simp_all add: cleared_def)
  have rq: "requests (effects cleared)
               = requests (effects s) @ [Fetch ''POST'' ''/api/pois'' (Some body)]"
    by (simp add: cleared_def)
  have all: "requests (effects (on_submit H (Responded status (Inr result)) reload s))
               = requests (effects s)
                 @ [Fetch ''POST'' ''/api/pois'' (Some body), Fetch ''GET'' ''/api/pois'' None]"
    by (simp add: run loadPOIs_requests rq)
  from cl rq run all show ?thesis by blast
qed


text \<open>
  A load attaches to the editable overlay only features whose \<^verbatim>\<open>properties\<close> object it
  has read: the shapes of the overlay that carry a feature carry one with such an object.
\<close>

lemma popup_needs_properties:
  "createPopupContent H feat = Inr html \<Longrightarrow> properties feat \<noteq> None"
  by (cases "properties feat") (simp_all add: createPopupContent_def)

lemma readable_editable: "properties feat \<noteq> None \<Longrightarrow> readable (editable feat)"
  by (simp add: readable_def editable_def)

lemma classify_each_readable:
  "classify_each H fs pts pgs s = (e, a, b, s') \<Longrightarrow> list_all readable (drawnItems s)
     \<Longrightarrow> list_all readable (drawnItems s')"
proof (induction fs arbitrary: pts pgs s)
  case Nil
  then show ?case by simp
next
  case (Cons f fs)
  show ?case
  proof (cases "properties f")
    case None
    then show ?thesis using Cons.prems by simp
  next
    case (Some p)
    have r: "readable \<lparr>feature = Some f, shape = geometry f\<rparr>"
      using Some by (simp add: readable_def)
    show ?thesis
      using Cons.prems Some r
      by (auto split: if_splits sum.splits dest!: Cons.IH)
  qed
qed

lemma add_points_readable:
  "add_points H fs s = (e, s') \<Longrightarrow> list_all readable (drawnItems s)
     \<Longrightarrow> list_all readable (drawnItems s')"
proof (induction fs arbitrary: s)
  case Nil
  then show ?case by simp
next
  case (Cons f fs)
  show ?case
  proof (cases "createPopupContent H f")
    case (Inl err)
    then show ?thesis using Cons.prems by simp
  next
    case (Inr html)
    then have "readable \<lparr>feature = Some f, shape = geometry f\<rparr>"
      using popup_needs_properties [OF Inr] by (simp add: readable_def)
    then show ?thesis
      using Cons.prems Inr by (auto dest!: Cons.IH)
  qed
qed

lemma add_polygons_readable:
  "add_polygons H fs s = (e, s') \<Longrightarrow> list_all readable (drawnItems s)
     \<Longrightarrow> list_all readable (drawnItems s')"
proof (induction fs arbitrary: s)
  case Nil
  then show ?case by simp
next
  case (Cons f fs)
  show ?case
  proof (cases "createPopupContent H f")
    case (Inl err)
    then show ?thesis using Cons.prems by (auto simp: getPolygonStyle_eq)
  next
    case (Inr html)
    then have "readable \<lparr>feature = Some f, shape = geometry f\<rparr>"
      using popup_needs_properties [OF Inr] by (simp add: readable_def)
    then show ?thesis
      using Cons.prems Inr by (auto simp: getPolygonStyle_eq dest!: Cons.IH)
  qed
qed

lemma render_features_readable:
  "render_features H fs s = (e, s') \<Longrightarrow> list_all readable (drawnItems s)
     \<Longrightarrow> list_all readable (drawnItems s')"
  unfolding render_features_def
  by (auto split: option.splits prod.splits
        dest!: classify_each_readable add_points_readable add_polygons_readable)

lemma loadPOIs_try_readable:
  assumes run: "loadPOIs_try H response s = (e, s')"
    and inv: "list_all readable (drawnItems s)"
  shows "list_all readable (drawnItems s')"
proof (cases response)
  case (Rejected err)
  then show ?thesis using run inv by (auto simp: loadPOIs_try_def Let_def)
next
  case (Responded status body)
  show ?thesis
  proof (cases body)
    case (Inl err)
    then show ?thesis
      using run inv Responded by (auto simp: loadPOIs_try_def Let_def)
  next
    case (Inr geojson)
    note body = this
    show ?thesis
    proof (cases "read_features H (features geojson) (emit (Fetch ''GET'' ''/api/pois'' None) s)")
      case (Inl ended)
      then have "read_features H (features geojson) (emit (Fetch ''GET'' ''/api/pois'' None) s)
                   = Inl (e, s')"
        using run Responded body by (simp add: loadPOIs_try_def Let_def)
      from read_features_frame(1) [OF this] show ?thesis using inv by simp
    next
      case (Inr started)
      obtain fs s1 where started: "started = (fs, s1)" by (cases started)
      have "drawnItems s1 = drawnItems (emit (Fetch ''GET'' ''/api/pois'' None) s)"
        using read_features_frame(2) Inr started by blast
      then have "list_all readable (drawnItems s1)"
        using inv by simp
      moreover have "render_features H fs s1 = (e, s')"
        using run Responded body Inr started
        by (simp add: loadPOIs_try_def Let_def)
      ultimately show ?thesis
        using render_features_readable by blast
    qed
  qed
qed

lemma loadPOIs_readable:
  "list_all readable (drawnItems s) \<Longrightarrow>
     list_all readable (drawnItems (snd (loadPOIs H response s)))"
  by (cases "loadPOIs_try H response s")
     (auto simp: loadPOIs_def split: option.splits dest: loadPOIs_try_readable)

subsection \<open>Deletion requests\<close>

text \<open>
  C1 (as amended). Let every removed shape that carries a feature carry one with a
  \<^verbatim>\<open>properties\<close> object. Then the handler of the delete event ends without an error, and
  the DELETE requests it issues are, in the order of the removed shapes, one request to
  \<^verbatim>\<open>/api/pois/{id}\<close> for each shape that has a truthy \<^verbatim>\<open>id\<close> and whose dialog the user
  confirmed. No DELETE request is issued for a shape without an \<^verbatim>\<open>id\<close>, nor for one whose
  dialog the user declined.
\<close>

theorem on_draw_deleted_requests:
  assumes "\<forall>r \<in> set removed. readable (fst r)"
  shows "fst (on_draw_deleted H removed s) = None
         \<and> deletes (effects (snd (on_draw_deleted H removed s)))
             = deletes (effects s)
               @ map (\<lambda>r. delete_url H (fst r))
                   (filter (\<lambda>r. has_id H (fst r) \<and> fst (snd r)) removed)"
proof -
  obtain pending s' where step: "deleted_each H removed s = (None, pending, s')"
    and d: "deletes (effects s')
               = deletes (effects s)
                 @ map (\<lambda>r. delete_url H (fst r))
                     (filter (\<lambda>r. has_id H (fst r) \<and> fst (snd r)) removed)"
    using deleted_each_deletes [OF assms, of H s] by blast
  show ?thesis
    by (simp add: on_draw_deleted_def step resume_all_deletes d)
qed

text \<open>Three removed shapes: a confirmed one with identifier 1, a freshly drawn one, and
  one with identifier 4 whose dialog is declined.\<close>

theorem on_draw_deleted_requests_witness:
  "readable (editable cafe) \<and> readable drawn_marker \<and> readable (editable lake)
   \<and> deletes (effects (snd (on_draw_deleted sample_host
          [(editable cafe, True, Responded 204 (Inr ()), Responded 200 (Inr \<lparr>features = Features []\<rparr>)),
           (drawn_marker, True, Responded 204 (Inr ()), Responded 200 (Inr \<lparr>features = Features []\<rparr>)),
           (editable lake, False, Responded 204 (Inr ()), Responded 200 (Inr \<lparr>features = Features []\<rparr>))]
          initial_page)))
       = [''/api/pois/1'']"
proof -
  have h: "readable (editable cafe)" "readable drawn_marker" "readable (editable lake)"
    by (simp_all add: readable_def editable_def cafe_def lake_def drawn_marker_def)
  have ids: "has_id sample_host (editable cafe)" "\<not> has_id sample_host drawn_marker"
    "has_id sample_host (editable lake)"
    "delete_url sample_host (editable cafe) = ''/api/pois/1''"
    by (simp_all add: has_id_def id_of_def delete_url_def editable_def cafe_def lake_def
          drawn_marker_def sample_host_def show_nat.simps)
  show ?thesis
    using h on_draw_deleted_requests [where H = sample_host and s = "initial_page"
      and removed = "[(editable cafe, True, Responded 204 (Inr ()), Responded 200 (Inr \<lparr>features = Features []\<rparr>)),
           (drawn_marker, True, Responded 204 (Inr ()), Responded 200 (Inr \<lparr>features = Features []\<rparr>)),
           (editable lake, False, Responded 204 (Inr ()), Responded 200 (Inr \<lparr>features = Features []\<rparr>))]"]
    by (simp add: ids initial_page_def)
qed

text \<open>The specification promises a DELETE request for every removed shape with an
  identifier. The sample point has identifier 1; when the user declines the dialog, no
  DELETE request is issued.\<close>

theorem on_draw_deleted_counterexample:
  "id_of (editable cafe) = Some (Num 1)
   \<and> has_id sample_host (editable cafe)
   \<and> deletes (effects (snd (on_draw_deleted sample_host
          [(editable cafe, False, Responded 204 (Inr ()), Responded 200 (Inr sample_collection))]
          initial_page)))
       = []"
  by (simp add: id_of_def has_id_def editable_def cafe_def sample_host_def on_draw_deleted_def
        deletePOI_begin_def Let_def initial_page_def emit_def)

subsection \<open>Refused submissions\<close>

text \<open>
  C2. When no drawn geometry is pending, the submit handler alerts \<^verbatim>\<open>No geometry drawn\<close>
  and returns. When a geometry is pending and the properties text is not blank but does
  not parse, it alerts \<^verbatim>\<open>Invalid JSON in properties field\<close> and returns. In both cases
  the handler adds one alert and no request, and leaves the editable overlay, the pending
  geometry and the display of the modal as they were.
\<close>

theorem on_submit_refuses:
  "(currentDrawing s = None \<longrightarrow>
      on_submit H response reload s = emit (Alert ''No geometry drawn'') (emit PreventDefault s))
   \<and> (currentDrawing s \<noteq> None \<and> trim (poi_properties_value s) \<noteq> []
        \<and> JSON_parse H (poi_properties_value s) = None \<longrightarrow>
      on_submit H response reload s
        = emit (Alert ''Invalid JSON in properties field'') (emit PreventDefault s))
   \<and> (currentDrawing s = None
        \<or> trim (poi_properties_value s) \<noteq> [] \<and> JSON_parse H (poi_properties_value s) = None \<longrightarrow>
      requests (effects (on_submit H response reload s)) = requests (effects s)
      \<and> length (alerts (effects (on_submit H response reload s)))
          = length (alerts (effects s)) + 1
      \<and> drawnItems (on_submit H response reload s) = drawnItems s
      \<and> currentDrawing (on_submit H response reload s) = currentDrawing s
      \<and> poi_modal_display (on_submit H response reload s) = poi_modal_display s)"
proof -
  have a: "currentDrawing s = None \<Longrightarrow>
      on_submit H response reload s = emit (Alert ''No geometry drawn'') (emit PreventDefault s)"
    by (simp add: on_submit_def Let_def)
  have b: "currentDrawing s \<noteq> None \<and> trim (poi_properties_value s) \<noteq> []
        \<and> JSON_parse H (poi_properties_value s) = None \<Longrightarrow>
      on_submit H response reload s
        = emit (Alert ''Invalid JSON in properties field'') (emit PreventDefault s)"
  proof -
    assume h: "currentDrawing s \<noteq> None \<and> trim (poi_properties_value s) \<noteq> []
        \<and> JSON_parse H (poi_properties_value s) = None"
    then obtain drawing where "currentDrawing s = Some drawing"
      by (cases "currentDrawing s") simp_all
    then show ?thesis
      using h by (simp add: on_submit_def Let_def)
  qed
  have c: "currentDrawing s = None
        \<or> trim (poi_properties_value s) \<noteq> [] \<and> JSON_parse H (poi_properties_value s) = None \<Longrightarrow>
      \<exists>text. on_submit H response reload s = emit (Alert text) (emit PreventDefault s)"
  proof (cases "currentDrawing s")
    case None
    then show ?thesis using a by blast
  next
    case (Some drawing)
    assume "currentDrawing s = None
        \<or> trim (poi_properties_value s) \<noteq> [] \<and> JSON_parse H (poi_properties_value s) = None"
    with Some have "currentDrawing s \<noteq> None \<and> trim (poi_properties_value s) \<noteq> []
        \<and> JSON_parse H (poi_properties_value s) = None"
      by simp
    from b [OF this] show ?thesis by blast
  qed
  have d: "\<And>text. requests (effects (emit (Alert text) (emit PreventDefault s))) = requests (effects s)
      \<and> length (alerts (effects (emit (Alert text) (emit PreventDefault s))))
          = length (alerts (effects s)) + 1
      \<and> drawnItems (emit (Alert text) (emit PreventDefault s)) = drawnItems s
      \<and> currentDrawing (emit (Alert text) (emit PreventDefault s)) = currentDrawing s
      \<and> poi_modal_display (emit (Alert text) (emit PreventDefault s)) = poi_modal_display s"
    by (simp add: alerts_def)
  have e: "currentDrawing s = None
        \<or> trim (poi_properties_value s) \<noteq> [] \<and> JSON_parse H (poi_properties_value s) = None \<Longrightarrow>
      requests (effects (on_submit H response reload s)) = requests (effects s)
      \<and> length (alerts (effects (on_submit H response reload s)))
          = length (alerts (effects s)) + 1
      \<and> drawnItems (on_submit H response reload s) = drawnItems s
      \<and> currentDrawing (on_submit H response reload s) = currentDrawing s
      \<and> poi_modal_display (on_submit H response reload s) = poi_modal_display s"
  proof -
    assume "currentDrawing s = None
        \<or> trim (poi_properties_value s) \<noteq> [] \<and> JSON_parse H (poi_properties_value s) = None"
    then obtain msg where "on_submit H response reload s = emit (Alert msg) (emit PreventDefault s)"
      using c by blast
    then show ?thesis using d [of msg] by (simp only:)
  qed
  from a b e show ?thesis by blast
qed

text \<open>A submission on the fresh page, and one with the text \<^verbatim>\<open>{invalid\<close> after a shape
  has been drawn: the shape stays in the overlay and the modal stays open.\<close>

theorem on_submit_refuses_witness:
  "currentDrawing (initial_page :: int page) = None
   \<and> on_submit sample_host (Responded 201 (Inr (Prim Null))) (Responded 200 (Inr sample_collection))
        initial_page
     = emit (Alert ''No geometry drawn'') (emit PreventDefault initial_page)
   \<and> currentDrawing (drawn_page (units ''{invalid'')) \<noteq> None
   \<and> trim (poi_properties_value (drawn_page (units ''{invalid''))) \<noteq> []
   \<and> JSON_parse sample_host (poi_properties_value (drawn_page (units ''{invalid''))) = None
   \<and> effects (on_submit sample_host (Responded 201 (Inr (Prim Null)))
                (Responded 200 (Inr sample_collection)) (drawn_page (units ''{invalid'')))
     = [Focus ''poi-name'', PreventDefault, Alert ''Invalid JSON in properties field'']
   \<and> drawnItems (on_submit sample_host (Responded 201 (Inr (Prim Null)))
                   (Responded 200 (Inr sample_collection)) (drawn_page (units ''{invalid'')))
     = [drawn_marker]
   \<and> poi_modal_display (on_submit sample_host (Responded 201 (Inr (Prim Null)))
                   (Responded 200 (Inr sample_collection)) (drawn_page (units ''{invalid'')))
     = ''block''"
proof -
  have h1: "currentDrawing (initial_page :: int page) = None"
    by (simp add: initial_page_def)
  have h2: "currentDrawing (drawn_page (units ''{invalid'')) \<noteq> None"
    "trim (poi_properties_value (drawn_page (units ''{invalid''))) \<noteq> []"
    "JSON_parse sample_host (poi_properties_value (drawn_page (units ''{invalid''))) = None"
    by (simp_all add: drawn_page_fields trim_def is_white_space_def sample_host_def units_def)
  have e: "effects (drawn_page (units ''{invalid'')) = [Focus ''poi-name'']"
    "drawnItems (drawn_page (units ''{invalid'')) = [drawn_marker]"
    "poi_modal_display (drawn_page (units ''{invalid'')) = ''block''"
    by (simp_all add: drawn_page_fields)
  have a: "on_submit sample_host (Responded 201 (Inr (Prim Null)))
             (Responded 200 (Inr sample_collection)) (initial_page :: int page)
           = emit (Alert ''No geometry drawn'') (emit PreventDefault initial_page)"
    using h1 on_submit_refuses [where H = sample_host and s = "initial_page :: int page"
        and response = "Responded 201 (Inr (Prim Null))"
        and reload = "Responded 200 (Inr sample_collection)"]
    by blast
  have b: "on_submit sample_host (Responded 201 (Inr (Prim Null)))
             (Responded 200 (Inr sample_collection)) (drawn_page (units ''{invalid''))
           = emit (Alert ''Invalid JSON in properties field'')
               (emit PreventDefault (drawn_page (units ''{invalid'')))"
    using h2 on_submit_refuses [where H = sample_host and s = "drawn_page (units ''{invalid'')"
        and response = "Responded 201 (Inr (Prim Null))"
        and reload = "Responded 200 (Inr sample_collection)"]
    by blast
  show ?thesis
    using h1 h2 a by (simp add: b e)
qed

subsection \<open>Reload after a creation\<close>

text \<open>
  C3 (as amended). Whenever the submit handler issues a request, so that a creation POST
  is sent, and the POST receives a 2xx response whose body parses as JSON, the handler
  clears the three layer groups, the editable overlay and the colour cursor, then runs \<^verbatim>\<open>loadPOIs\<close> once
  on the cleared page and reports success: after its POST it issues exactly one request,
  the GET of the collection.
\<close>

theorem on_submit_reloads:
  assumes "requests (effects (on_submit H (Responded status (Inr result)) reload s))
             \<noteq> requests (effects s)"
    and "ok status"
  shows "\<exists>cleared body.
           pointLayer cleared = [] \<and> lineLayer cleared = [] \<and> polygonLayer cleared = []
           \<and> drawnItems cleared = [] \<and> colorIndex cleared = 0
           \<and> requests (effects cleared)
               = requests (effects s) @ [Fetch ''POST'' ''/api/pois'' (Some body)]
           \<and> on_submit H (Responded status (Inr result)) reload s
               = emit (Alert ''POI created successfully!'') (snd (loadPOIs H reload cleared))
           \<and> requests (effects (on_submit H (Responded status (Inr result)) reload s))
               = requests (effects s)
                 @ [Fetch ''POST'' ''/api/pois'' (Some body), Fetch ''GET'' ''/api/pois'' None]"
proof (cases "currentDrawing s")
  case None
  then have "requests (effects (on_submit H (Responded status (Inr result)) reload s))
               = requests (effects s)"
    by (simp add: on_submit_no_drawing)
  with assms(1) show ?thesis by simp
next
  case (Some drawing)
  show ?thesis
  proof (cases "trim (poi_properties_value s) \<noteq> []
                \<and> JSON_parse H (poi_properties_value s) = None")
    case True
    then have "requests (effects (on_submit H (Responded status (Inr result)) reload s))
                 = requests (effects s)"
      using Some by (simp add: on_submit_bad_json)
    with assms(1) show ?thesis by simp
  next
    case False
    then have "trim (poi_properties_value s) = []
               \<or> JSON_parse H (poi_properties_value s) \<noteq> None"
      by auto
    from on_submit_success [OF Some this assms(2)] show ?thesis .
  qed
qed

text \<open>A submission whose properties text is one no-break space (U+00A0): trimming leaves
  nothing, the text counts as blank, and the POST is sent with \<^verbatim>\<open>null\<close> properties.\<close>

theorem on_submit_reloads_witness:
  "trim (poi_properties_value (drawn_page [0x00A0])) = []
   \<and> requests (effects (on_submit sample_host (Responded 201 (Inr (Prim Null)))
                           (Responded 200 (Inr sample_collection)) (drawn_page [0x00A0])))
       \<noteq> requests (effects (drawn_page [0x00A0]))
   \<and> ok 201
   \<and> map (\<lambda>e. case e of Fetch m u b \<Rightarrow> (m, u) | _ \<Rightarrow> ([], []))
         (requests (effects (on_submit sample_host (Responded 201 (Inr (Prim Null)))
                               (Responded 200 (Inr sample_collection)) (drawn_page [0x00A0]))))
     = [(''POST'', ''/api/pois''), (''GET'', ''/api/pois'')]"
proof -
  have h1: "currentDrawing (drawn_page [0x00A0]) = Some drawn_marker"
    by (simp add: drawn_page_fields)
  have h2: "trim (poi_properties_value (drawn_page [0x00A0])) = []"
    by (simp add: drawn_page_fields trim_def is_white_space_def)
  then have h2': "trim (poi_properties_value (drawn_page [0x00A0])) = []
      \<or> JSON_parse sample_host (poi_properties_value (drawn_page [0x00A0])) \<noteq> None"
    by blast
  have h3: "ok 201"
    by (simp add: ok_def)
  have sent: "requests (effects (on_submit sample_host (Responded 201 (Inr (Prim Null)))
                           (Responded 200 (Inr sample_collection)) (drawn_page [0x00A0])))
       \<noteq> requests (effects (drawn_page [0x00A0]))"
    using on_submit_success [OF h1 h2' h3, of "Prim Null" "Responded 200 (Inr sample_collection)"]
    by auto
  obtain cleared body where
    "requests (effects (on_submit sample_host (Responded 201 (Inr (Prim Null)))
                          (Responded 200 (Inr sample_collection)) (drawn_page [0x00A0])))
       = requests (effects (drawn_page [0x00A0]))
         @ [Fetch ''POST'' ''/api/pois'' (Some body), Fetch ''GET'' ''/api/pois'' None]"
    using on_submit_reloads [OF sent h3] by blast
  then show ?thesis
    using h2 sent h3 by (simp add: drawn_page_fields)
qed

text \<open>The specification speaks of every 2xx response. A response with status 201 whose body
  does not parse takes the handler into its \<^verbatim>\<open>catch\<close>: the POST is the only request and
  the overlay is not cleared.\<close>

theorem on_submit_reload_counterexample:
  "currentDrawing (drawn_page []) = Some drawn_marker
   \<and> ok 201
   \<and> requests (effects (on_submit sample_host
        (Responded 201 (Inl (SyntaxError ''Unexpected end of JSON input'')))
        (Responded 200 (Inr sample_collection)) (drawn_page [])))
     = [Fetch ''POST'' ''/api/pois'' (Some (JSON_stringify sample_host sample_poi 0))]
   \<and> drawnItems (on_submit sample_host
        (Responded 201 (Inl (SyntaxError ''Unexpected end of JSON input'')))
        (Responded 200 (Inr sample_collection)) (drawn_page []))
     = [drawn_marker]"
proof -
  have poi: "Obj [(''name'', Prim (Str ''Kiosk'')), (''poi_type'', Prim (Str [])),
                  (''address'', Prim (Str [])), (''geometry'', shape drawn_marker),
                  (''properties'', Prim Null)] = sample_poi"
    by (simp add: sample_poi_def drawn_marker_def)
  have "on_submit sample_host
        (Responded 201 (Inl (SyntaxError ''Unexpected end of JSON input'')))
        (Responded 200 (Inr sample_collection)) (drawn_page [])
      = emit (Alert (''Failed to create POI: '' @ ''Unexpected end of JSON input''))
          (emit (ConsoleError ''Error creating POI:'' (SyntaxError ''Unexpected end of JSON input''))
            (emit (Fetch ''POST'' ''/api/pois'' (Some (JSON_stringify sample_host sample_poi 0)))
              (emit PreventDefault (drawn_page []))))"
    by (simp add: on_submit_def submit_try_def Let_def trim_def ok_def drawn_page_fields poi)
  then show ?thesis
    by (simp add: drawn_page_fields ok_def)
qed

subsection \<open>Classification of the loaded features\<close>

text \<open>
  C4 (as amended). When the collection is not empty and every feature has a
  \<^verbatim>\<open>properties\<close> object, the load adds to each layer group \<open>g\<close> exactly the features whose \<^verbatim>\<open>geom_type\<close> tag the
  specification sends to \<open>g\<close>, in the order of the collection: \<^verbatim>\<open>ST_Point\<close> to the points,
  \<^verbatim>\<open>ST_LineString\<close> and \<^verbatim>\<open>ST_MultiLineString\<close> to the lines, every other tag to the
  polygons. In the simplified viewer the tag \<^verbatim>\<open>ST_Point\<close> goes to the points and every
  other tag to the polygons. As the group is a function of the tag, a feature is added to
  one group only.
\<close>

theorem loadPOIs_partition:
  assumes "features geojson = Features fs" and "fs \<noteq> []"
    and "\<forall>f \<in> set fs. properties f \<noteq> None"
  shows "map source (group_layer g (snd (loadPOIs H (Responded status (Inr geojson)) s)))
           = map source (group_layer g s) @ filter (in_group g) fs
         \<and> map source (group_layer g (snd (loadPOIs_viewer H (Responded status (Inr geojson)) s)))
           = map source (group_layer g s) @ filter (in_group_viewer g) fs"
proof -
  have no_lines: "filter (in_group_viewer Lines) fs = []"
    by (auto simp: filter_empty_conv in_group_viewer_def group_of_tag_viewer_def
          split: option.splits)
  show ?thesis
    using loadPOIs_loaded [OF assms, of H status s] loadPOIs_viewer_loaded [OF assms, of H status s]
    by (cases g) (simp_all add: no_lines comp_def)
qed

text \<open>The sample collection: one point, one line and two polygons.\<close>

theorem loadPOIs_partition_witness:
  "features sample_collection = Features [park, cafe, road, lake]
   \<and> [park, cafe, road, lake] \<noteq> []
   \<and> properties park \<noteq> None \<and> properties cafe \<noteq> None
   \<and> properties road \<noteq> None \<and> properties lake \<noteq> None
   \<and> map source (pointLayer (snd (loadPOIs sample_host (Responded 200 (Inr sample_collection))
                                  initial_page))) = [cafe]
   \<and> map source (lineLayer (snd (loadPOIs sample_host (Responded 200 (Inr sample_collection))
                                  initial_page))) = [road]
   \<and> map source (polygonLayer (snd (loadPOIs sample_host (Responded 200 (Inr sample_collection))
                                  initial_page))) = [park, lake]
   \<and> map source (pointLayer (snd (loadPOIs_viewer sample_host
                                  (Responded 200 (Inr sample_collection)) initial_page))) = [cafe]
   \<and> map source (polygonLayer (snd (loadPOIs_viewer sample_host
                                  (Responded 200 (Inr sample_collection)) initial_page)))
       = [park, road, lake]"
proof -
  have h1: "features sample_collection = Features [park, cafe, road, lake]"
    by (simp add: sample_collection_def)
  have h2: "[park, cafe, road, lake] \<noteq> []"
    by simp
  have h3: "\<forall>f \<in> set [park, cafe, road, lake]. properties f \<noteq> None"
    by (simp add: park_def cafe_def road_def lake_def)
  note t = loadPOIs_partition [OF h1 h2 h3, where H = sample_host and status = 200
      and s = initial_page]
  have tags: "tag_of park = Some (Str ''ST_Polygon'')" "tag_of cafe = Some (Str ''ST_Point'')"
    "tag_of road = Some (Str ''ST_LineString'')" "tag_of lake = Some (Str ''ST_MultiPolygon'')"
    by (simp_all add: tag_of_def park_def cafe_def road_def lake_def)
  show ?thesis
    using h1 h2 h3 t [where g = Points] t [where g = Lines] t [where g = Polygons]
    by (simp add: in_group_def in_group_viewer_def tags group_of_tag_def
          group_of_tag_viewer_def initial_page_def)
qed

text \<open>The specification speaks of every feature of a loaded collection. In the collection
  of the sample point and a feature without a \<^verbatim>\<open>properties\<close> object, the first loop throws
  at the second feature before any point is rendered: the point, tagged \<^verbatim>\<open>ST_Point\<close>, is
  in no group, in either script.\<close>

theorem loadPOIs_partition_counterexample:
  "in_group Points cafe
   \<and> group_layer Points (snd (loadPOIs sample_host
         (Responded 200 (Inr \<lparr>features = Features [cafe, bare]\<rparr>)) initial_page)) = []
   \<and> in_group_viewer Points cafe
   \<and> group_layer Points (snd (loadPOIs_viewer sample_host
         (Responded 200 (Inr \<lparr>features = Features [cafe, bare]\<rparr>)) initial_page)) = []"
proof -
  have tags: "in_group Points cafe" "in_group_viewer Points cafe"
    by (simp_all add: in_group_def in_group_viewer_def tag_of_def group_of_tag_def
          group_of_tag_viewer_def cafe_def)
  have r: "\<And>s :: int page. read_features sample_host (Features [cafe, bare]) s
             = Inr ([cafe, bare], s\<lparr>poi_count := ''Total POIs: 2''\<rparr>)"
    by (simp add: read_features_def show_nat.simps)
  have c: "properties cafe
             = Some \<lparr>name = Str ''Cafe'', poi_type = Str ''food'', address = Null, poi_id = Num 1,
                     geom_type = Str ''ST_Point'', extra = sample_hours\<rparr>"
    "properties bare = None"
    by (simp_all add: cafe_def bare_def)
  have "pointLayer (snd (loadPOIs sample_host
         (Responded 200 (Inr \<lparr>features = Features [cafe, bare]\<rparr>)) initial_page)) = []"
    by (simp add: loadPOIs_def loadPOIs_try_def render_features_def Let_def r c initial_page_def)
  moreover have "pointLayer (snd (loadPOIs_viewer sample_host
         (Responded 200 (Inr \<lparr>features = Features [cafe, bare]\<rparr>)) initial_page)) = []"
    by (simp add: loadPOIs_viewer_def loadPOIs_try_viewer_def render_features_viewer_def Let_def
          r c initial_page_def)
  ultimately show ?thesis using tags by simp
qed

subsection \<open>Colours of the polygons\<close>

text \<open>
  C5. Clearing the layers empties the polygon group and puts the colour cursor back to
  zero; a call of \<^verbatim>\<open>getPolygonColor\<close> yields the palette colour at the cursor modulo 10
  and moves the cursor on by one. Hence the polygons that one pass renders take the palette
  colours at the successive cursor values modulo 10, and in a load that follows a clear the
  \<open>i\<close>-th polygon (from 0) takes the colour at index \<open>i mod 10\<close>, whatever the page was
  before the clear: a reload gives the same features the same colours.
\<close>

theorem polygon_colors_cycle:
  "colorIndex (clearLayers s) = 0
   \<and> polygonLayer (clearLayers s) = []
   \<and> getPolygonColor s
       = (polygonColors ! (colorIndex s mod 10), s\<lparr>colorIndex := colorIndex s + 1\<rparr>)
   \<and> ((\<forall>f \<in> set ps. properties f \<noteq> None) \<longrightarrow>
        map options (polygonLayer (snd (add_polygons H ps s)))
          = map options (polygonLayer s)
            @ map (\<lambda>i. polygon_options (polygonColors ! (i mod 10)))
                [colorIndex s ..< colorIndex s + length ps])
   \<and> (features geojson = Features fs \<and> fs \<noteq> [] \<and> (\<forall>f \<in> set fs. properties f \<noteq> None) \<longrightarrow>
        map options (polygonLayer (snd (loadPOIs H (Responded status (Inr geojson))
                                          (clearLayers s))))
          = map (\<lambda>i. polygon_options (polygonColors ! (i mod 10)))
              [0 ..< length (filter (in_group Polygons) fs)])"
proof -
  have a: "colorIndex (clearLayers s) = 0" "polygonLayer (clearLayers s) = []"
    by (simp_all add: clearLayers_def)
  have b: "getPolygonColor s
       = (polygonColors ! (colorIndex s mod 10), s\<lparr>colorIndex := colorIndex s + 1\<rparr>)"
    by (simp add: getPolygonColor_def polygonColors_def)
  have c: "(\<forall>f \<in> set ps. properties f \<noteq> None) \<Longrightarrow>
        map options (polygonLayer (snd (add_polygons H ps s)))
          = map options (polygonLayer s)
            @ map (\<lambda>i. polygon_options (polygonColors ! (i mod 10)))
                [colorIndex s ..< colorIndex s + length ps]"
    by (simp add: add_polygons_ok map_options_polygons_from)
  have d: "features geojson = Features fs \<and> fs \<noteq> [] \<and> (\<forall>f \<in> set fs. properties f \<noteq> None) \<Longrightarrow>
        map options (polygonLayer (snd (loadPOIs H (Responded status (Inr geojson))
                                          (clearLayers s))))
          = map (\<lambda>i. polygon_options (polygonColors ! (i mod 10)))
              [0 ..< length (filter (in_group Polygons) fs)]"
  proof -
    assume h: "features geojson = Features fs \<and> fs \<noteq> [] \<and> (\<forall>f \<in> set fs. properties f \<noteq> None)"
    then have "polygonLayer (snd (loadPOIs H (Responded status (Inr geojson)) (clearLayers s)))
        = polygonLayer (clearLayers s)
          @ polygons_from H (colorIndex (clearLayers s)) (filter (in_group Polygons) fs)"
      using loadPOIs_loaded(3) [of geojson fs H status "clearLayers s"] by blast
    then show ?thesis
      by (simp add: a map_options_polygons_from)
  qed
  from a b c d show ?thesis by blast
qed

text \<open>Two polygons rendered from cursor 9 wrap around the palette; after a clear the same
  two take the first two colours.\<close>

theorem polygon_colors_cycle_witness:
  "features sample_collection = Features [park, cafe, road, lake]
   \<and> [park, cafe, road, lake] \<noteq> []
   \<and> properties park \<noteq> None \<and> properties cafe \<noteq> None
   \<and> properties road \<noteq> None \<and> properties lake \<noteq> None
   \<and> map options (polygonLayer (snd (add_polygons sample_host [park, lake]
                                       (initial_page\<lparr>colorIndex := 9\<rparr>))))
       = [polygon_options ''#52B788'', polygon_options ''#FF6B6B'']
   \<and> map options (polygonLayer (snd (loadPOIs sample_host (Responded 200 (Inr sample_collection))
                                       (clearLayers (initial_page\<lparr>colorIndex := 9\<rparr>)))))
       = [polygon_options ''#FF6B6B'', polygon_options ''#4ECDC4'']"
proof -
  have h0: "\<forall>f \<in> set [park, lake]. properties f \<noteq> None"
    by (simp add: park_def lake_def)
  have h1: "features sample_collection = Features [park, cafe, road, lake]"
    by (simp add: sample_collection_def)
  have h2: "[park, cafe, road, lake] \<noteq> []"
    by simp
  have h3: "\<forall>f \<in> set [park, cafe, road, lake]. properties f \<noteq> None"
    by (simp add: park_def cafe_def road_def lake_def)
  have tags: "tag_of park = Some (Str ''ST_Polygon'')" "tag_of cafe = Some (Str ''ST_Point'')"
    "tag_of road = Some (Str ''ST_LineString'')" "tag_of lake = Some (Str ''ST_MultiPolygon'')"
    by (simp_all add: tag_of_def park_def cafe_def road_def lake_def)
  have up: "[9 ..< 11] = [9, 10::nat]" "[0 ..< 2] = [0, 1::nat]"
    by (simp_all add: upt_rec)
  show ?thesis
    using h0 h1 h2 h3
      polygon_colors_cycle [where ps = "[park, lake]" and H = sample_host
        and s = "initial_page\<lparr>colorIndex := 9\<rparr>" and geojson = sample_collection
        and fs = "[park, cafe, road, lake]" and status = 200]
    by (simp add: in_group_def tags group_of_tag_def initial_page_def up polygonColors_def)
qed

subsection \<open>Empty result\<close>

text \<open>
  C6 (as amended). When the member \<^verbatim>\<open>features\<close> of the fetched collection is an empty
  array, or is missing or otherwise falsy, the loader, in both scripts, sets the count text to \<^verbatim>\<open>No POIs found in database\<close> and returns:
  apart from the request in the log, nothing else of the page changes, so no layer is
  added to any group.
\<close>

theorem loadPOIs_empty:
  assumes "features geojson = Features []
           \<or> (\<exists>p. features geojson = Primitive p \<and> \<not> ToBoolean H p)"
  shows "loadPOIs H (Responded status (Inr geojson)) s
           = (None, (emit (Fetch ''GET'' ''/api/pois'' None) s)
                      \<lparr>poi_count := ''No POIs found in database''\<rparr>)
         \<and> loadPOIs_viewer H (Responded status (Inr geojson)) s
           = (None, (emit (Fetch ''GET'' ''/api/pois'' None) s)
                      \<lparr>poi_count := ''No POIs found in database''\<rparr>)"
proof -
  have "\<And>s' :: 'a page. read_features H (features geojson) s'
          = Inl (None, s'\<lparr>poi_count := ''No POIs found in database''\<rparr>)"
    using assms by (auto simp: read_features_def no_pois_def)
  then show ?thesis
    by (simp add: loadPOIs_def loadPOIs_try_def loadPOIs_viewer_def loadPOIs_try_viewer_def Let_def)
qed

text \<open>An empty array, and a body without the member.\<close>

theorem loadPOIs_empty_witness:
  "loadPOIs sample_host (Responded 200 (Inr \<lparr>features = Features []\<rparr>)) initial_page
       = (None, (initial_page :: int page)
                  \<lparr>poi_count := ''No POIs found in database'',
                    effects := [Fetch ''GET'' ''/api/pois'' None]\<rparr>)
   \<and> loadPOIs_viewer sample_host (Responded 200 (Inr \<lparr>features = Features []\<rparr>)) initial_page
       = (None, (initial_page :: int page)
                  \<lparr>poi_count := ''No POIs found in database'',
                    effects := [Fetch ''GET'' ''/api/pois'' None]\<rparr>)
   \<and> \<not> ToBoolean sample_host Undefined
   \<and> loadPOIs sample_host (Responded 200 (Inr \<lparr>features = Primitive Undefined\<rparr>)) initial_page
       = (None, (initial_page :: int page)
                  \<lparr>poi_count := ''No POIs found in database'',
                    effects := [Fetch ''GET'' ''/api/pois'' None]\<rparr>)"
proof -
  have a: "features \<lparr>features = Features ([] :: int feature list)\<rparr> = Features []
           \<or> (\<exists>p. features \<lparr>features = Features ([] :: int feature list)\<rparr> = Primitive p
                   \<and> \<not> ToBoolean sample_host p)"
    by simp
  have b: "features \<lparr>features = (Primitive Undefined :: int member)\<rparr> = Features []
           \<or> (\<exists>p. features \<lparr>features = (Primitive Undefined :: int member)\<rparr> = Primitive p
                   \<and> \<not> ToBoolean sample_host p)"
    by simp
  show ?thesis
    using loadPOIs_empty [OF a, of 200 initial_page] loadPOIs_empty [OF b, of 200 initial_page]
    by (simp add: emit_def initial_page_def)
qed

text \<open>The specification also speaks of a body that lacks a \<^verbatim>\<open>features\<close> array. When the
  member is the empty object, it is truthy and its \<^verbatim>\<open>length\<close> is not \<^verbatim>\<open>0\<close>: the count
  text is written, \<^verbatim>\<open>forEach\<close> is not a function, and the \<^verbatim>\<open>catch\<close> leaves the text
  \<^verbatim>\<open>Error loading POIs\<close>, in both scripts.\<close>

theorem loadPOIs_empty_counterexample:
  "loadPOIs sample_host (Responded 200 (Inr \<lparr>features = Object []\<rparr>)) initial_page
       = (None, (initial_page :: int page)
                  \<lparr>poi_count := ''Error loading POIs'',
                    effects := [Fetch ''GET'' ''/api/pois'' None,
                                ConsoleError ''Error loading POIs:'' not_a_function]\<rparr>)
   \<and> loadPOIs_viewer sample_host (Responded 200 (Inr \<lparr>features = Object []\<rparr>)) initial_page
       = (None, (initial_page :: int page)
                  \<lparr>poi_count := ''Error loading POIs'',
                    effects := [Fetch ''GET'' ''/api/pois'' None,
                                ConsoleError ''Error loading POIs:'' not_a_function]\<rparr>)"
  by (simp add: loadPOIs_def loadPOIs_try_def loadPOIs_viewer_def loadPOIs_try_viewer_def
        read_features_def Let_def emit_def initial_page_def)

subsection \<open>Failure of the fetch\<close>

text \<open>
  C7. A call of \<^verbatim>\<open>loadPOIs\<close> never ends with an error, in either script. When the request
  is rejected or the body of the response does not parse, the error is written to the
  console and the count text becomes \<^verbatim>\<open>Error loading POIs\<close>; nothing else of the page
  changes.
\<close>

theorem loadPOIs_failure:
  "fst (loadPOIs H response s) = None \<and> fst (loadPOIs_viewer H response s) = None
   \<and> (response = Rejected e \<or> response = Responded status (Inl e) \<longrightarrow>
        loadPOIs H response s
          = (None, (emit (ConsoleError ''Error loading POIs:'' e)
                      (emit (Fetch ''GET'' ''/api/pois'' None) s))
                     \<lparr>poi_count := ''Error loading POIs''\<rparr>)
        \<and> loadPOIs_viewer H response s
          = (None, (emit (ConsoleError ''Error loading POIs:'' e)
                      (emit (Fetch ''GET'' ''/api/pois'' None) s))
                     \<lparr>poi_count := ''Error loading POIs''\<rparr>))"
proof -
  have "fst (loadPOIs H response s) = None"
    by (simp add: loadPOIs_def split: prod.splits option.splits)
  moreover have "fst (loadPOIs_viewer H response s) = None"
    by (simp add: loadPOIs_viewer_def split: prod.splits option.splits)
  moreover have "response = Rejected e \<or> response = Responded status (Inl e) \<Longrightarrow>
      loadPOIs H response s
          = (None, (emit (ConsoleError ''Error loading POIs:'' e)
                      (emit (Fetch ''GET'' ''/api/pois'' None) s))
                     \<lparr>poi_count := ''Error loading POIs''\<rparr>)"
    by (auto simp: loadPOIs_def loadPOIs_try_def Let_def)
  moreover have "response = Rejected e \<or> response = Responded status (Inl e) \<Longrightarrow>
      loadPOIs_viewer H response s
          = (None, (emit (ConsoleError ''Error loading POIs:'' e)
                      (emit (Fetch ''GET'' ''/api/pois'' None) s))
                     \<lparr>poi_count := ''Error loading POIs''\<rparr>)"
    by (auto simp: loadPOIs_viewer_def loadPOIs_try_viewer_def Let_def)
  ultimately show ?thesis by blast
qed

theorem loadPOIs_failure_witness:
  "loadPOIs sample_host (Responded 200 (Inl (SyntaxError ''Unexpected token <''))) initial_page
     = (None, (initial_page :: int page)
                \<lparr>poi_count := ''Error loading POIs'',
                  effects := [Fetch ''GET'' ''/api/pois'' None,
                              ConsoleError ''Error loading POIs:''
                                (SyntaxError ''Unexpected token <'')]\<rparr>)
   \<and> loadPOIs_viewer sample_host (Responded 200 (Inl (SyntaxError ''Unexpected token <'')))
        initial_page
     = (None, (initial_page :: int page)
                \<lparr>poi_count := ''Error loading POIs'',
                  effects := [Fetch ''GET'' ''/api/pois'' None,
                              ConsoleError ''Error loading POIs:''
                                (SyntaxError ''Unexpected token <'')]\<rparr>)"
  using loadPOIs_failure [of sample_host "Responded 200 (Inl (SyntaxError ''Unexpected token <''))"
      initial_page "SyntaxError ''Unexpected token <''" 200]
  by (simp add: emit_def initial_page_def)

subsection \<open>Markup of the popup\<close>

text \<open>
  C8. For a feature with a \<^verbatim>\<open>properties\<close> object the popup renderer returns markup, with
  no error, made of: the heading with the name, which is \<^verbatim>\<open>Unnamed POI\<close> when the name is
  missing (or otherwise falsy); the type line and the address line, each present exactly
  when its member is truthy, hence absent when the member is missing; the line of the
  identifier; the line of the geometry-kind tag; and the dump of the nested properties,
  printed with indent 2, present exactly when that value is truthy and has a key, hence
  absent when it is missing or an empty mapping and present for a non-empty mapping.
\<close>

theorem createPopupContent_markup:
  assumes "properties feat = Some p"
  shows "\<exists>shown_name type_line address_line dump.
     createPopupContent H feat =
       Inr (popup_frame shown_name
              (type_line @ address_line
               @ popup_line ''ID'' (ToString H (poi_id p))
               @ popup_line ''Geometry'' (ToString H (geom_type p))
               @ dump))
     \<and> shown_name = (if ToBoolean H (name p) then ToString H (name p) else ''Unnamed POI'')
     \<and> (name p = Undefined \<longrightarrow> shown_name = ''Unnamed POI'')
     \<and> type_line
         = (if ToBoolean H (poi_type p) then popup_line ''Type'' (ToString H (poi_type p)) else [])
     \<and> (poi_type p = Undefined \<longrightarrow> type_line = [])
     \<and> address_line
         = (if ToBoolean H (address p) then popup_line ''Address'' (ToString H (address p))
            else [])
     \<and> (address p = Undefined \<longrightarrow> address_line = [])
     \<and> dump = (if has_entries H (extra p) then popup_dump (JSON_stringify H (extra p) 2) else [])
     \<and> (extra p = Prim Undefined \<or> extra p = Obj [] \<longrightarrow> dump = [])
     \<and> (\<forall>kvs. extra p = Obj kvs \<and> kvs \<noteq> [] \<longrightarrow> dump = popup_dump (JSON_stringify H (extra p) 2))"
proof -
  define n where "n = (if ToBoolean H (name p) then ToString H (name p) else ''Unnamed POI'')"
  define t where
    "t = (if ToBoolean H (poi_type p) then popup_line ''Type'' (ToString H (poi_type p)) else [])"
  define a where
    "a = (if ToBoolean H (address p) then popup_line ''Address'' (ToString H (address p)) else [])"
  define d where
    "d = (if has_entries H (extra p) then popup_dump (JSON_stringify H (extra p) 2) else [])"
  have 0: "createPopupContent H feat =
       Inr (popup_frame n
              (t @ a @ popup_line ''ID'' (ToString H (poi_id p))
               @ popup_line ''Geometry'' (ToString H (geom_type p)) @ d))"
    unfolding n_def t_def a_def d_def by (rule createPopupContent_Some [OF assms])
  have 1: "name p = Undefined \<longrightarrow> n = ''Unnamed POI''"
    unfolding n_def by (cases "name p") simp_all
  have 2: "poi_type p = Undefined \<longrightarrow> t = []"
    unfolding t_def by (cases "poi_type p") simp_all
  have 3: "address p = Undefined \<longrightarrow> a = []"
    unfolding a_def by (cases "address p") simp_all
  have 4: "extra p = Prim Undefined \<or> extra p = Obj [] \<longrightarrow> d = []"
    unfolding d_def by (auto simp: has_entries_cases)
  have 5: "\<forall>kvs. extra p = Obj kvs \<and> kvs \<noteq> [] \<longrightarrow> d = popup_dump (JSON_stringify H (extra p) 2)"
    unfolding d_def by (simp add: has_entries_cases)
  from 0 1 2 3 4 5 n_def t_def a_def d_def show ?thesis by blast
qed

text \<open>The popup of the sample point: a name, a type, no address (it is \<^verbatim>\<open>null\<close>), and
  one extra property.\<close>

theorem createPopupContent_markup_witness:
  \<open>properties cafe
     = Some \<lparr>name = Str ''Cafe'', poi_type = Str ''food'', address = Null, poi_id = Num 1,
             geom_type = Str ''ST_Point'', extra = sample_hours\<rparr>
   \<and> createPopupContent sample_host cafe
     = Inr (''<div class="popup-content"><h3>Cafe</h3>''
            @ ''<p><strong>Type:</strong> food</p>''
            @ ''<p><strong>ID:</strong> 1</p>''
            @ ''<p><strong>Geometry:</strong> ST_Point</p>''
            @ ''<div class="properties"><strong>Additional Properties:</strong><br><pre>''
            @ ''{'' @ [CHR 0x0A] @ ''  "hours": "9-17"'' @ [CHR 0x0A] @ ''}''
            @ ''</pre></div></div>'')\<close>
proof -
  have h: "properties cafe
     = Some \<lparr>name = Str ''Cafe'', poi_type = Str ''food'', address = Null, poi_id = Num 1,
             geom_type = Str ''ST_Point'', extra = sample_hours\<rparr>"
    by (simp add: cafe_def)
  have e: "has_entries sample_host sample_hours"
    by (simp add: has_entries_def sample_hours_def)
  from createPopupContent_markup [OF h, of sample_host]
  have "createPopupContent sample_host cafe =
       Inr (popup_frame ''Cafe''
              (popup_line ''Type'' ''food'' @ []
               @ popup_line ''ID'' (Number_toString sample_host 1)
               @ popup_line ''Geometry'' ''ST_Point''
               @ popup_dump (JSON_stringify sample_host sample_hours 2)))"
    by (simp add: e)
  then show ?thesis
    using h
    by (simp add: popup_frame_def popup_line_def popup_dump_def sample_host_def show_nat.simps)
qed

subsection \<open>Confirmation before a deletion\<close>



subsection \<open>Totality of the popup renderer\<close>



end
